theory Spec2Isabelle
  imports Main
begin

section \<open>Values shared by the constructs\<close>

subsection \<open>Strings, attribute tokens and truthiness\<close>

text \<open>
  Configuration strings are plain \<^typ>\<open>string\<close>s. A value that the provisioning library
  only knows at deploy time (an ARN, a domain name, a URL) is read from a resource as an
  attribute token; a template literal around it is a list of fragments. Case conversion is
  the ASCII one: the eight-bit characters of \<^typ>\<open>string\<close> outside \<open>A..Z\<close>/\<open>a..z\<close> are
  left as they are.
\<close>

datatype attribute =
    RestApiUrl
  | BucketWebsiteUrl
  | BucketObjectsArn string
  | DistributionDomainName
  | OriginAccessIdentityPrincipal
  | ClusterArn
  | ClusterSocketAddress
  | SecretArn

datatype frag = Lit string | Tok attribute

type_synonym tstring = "frag list"

fun frag_truthy :: "frag \<Rightarrow> bool" where
  "frag_truthy (Lit s) = (s \<noteq> [])"
| "frag_truthy (Tok a) = True"

text \<open>A JavaScript string is falsy exactly when it is empty; \<open>undefined\<close> is falsy.\<close>

definition tstring_truthy :: "tstring \<Rightarrow> bool" where
  "tstring_truthy s = list_ex frag_truthy s"

definition truthy_string_opt :: "string option \<Rightarrow> bool" where
  "truthy_string_opt v = (case v of None \<Rightarrow> False | Some s \<Rightarrow> s \<noteq> [])"

definition truthy_bool_opt :: "bool option \<Rightarrow> bool" where
  "truthy_bool_opt v = (case v of None \<Rightarrow> False | Some b \<Rightarrow> b)"

definition toLowerCase_char :: "char \<Rightarrow> char" where
  "toLowerCase_char c =
     (let n = (of_char c :: nat) in if 65 \<le> n \<and> n \<le> 90 then char_of (n + 32) else c)"

definition toUpperCase_char :: "char \<Rightarrow> char" where
  "toUpperCase_char c =
     (let n = (of_char c :: nat) in if 97 \<le> n \<and> n \<le> 122 then char_of (n - 32) else c)"

definition toLowerCase :: "string \<Rightarrow> string" where
  "toLowerCase s = map toLowerCase_char s"

definition toUpperCase :: "string \<Rightarrow> string" where
  "toUpperCase s = map toUpperCase_char s"

subsection \<open>JavaScript objects used as dictionaries\<close>

text \<open>
  An object with string keys is the association list of its own properties, in creation
  order. Assigning to an existing key keeps its position; assigning to \<open>__proto__\<close> creates
  no own property (it goes to the prototype setter). Enumeration (\<open>Object.keys\<close>,
  \<open>Object.values\<close>, \<open>Object.entries\<close>) lists the keys that are array indices first, in
  ascending numeric order, then the other keys in creation order. \<open>obj_get\<close> reads an own
  property.
\<close>

type_synonym 'a js_object = "(string \<times> 'a) list"

fun own_set :: "'a js_object \<Rightarrow> string \<Rightarrow> 'a \<Rightarrow> 'a js_object" where
  "own_set [] k v = [(k, v)]"
| "own_set ((k', v') # kvs) k v =
     (if k' = k then (k, v) # kvs else (k', v') # own_set kvs k v)"

definition obj_set :: "'a js_object \<Rightarrow> string \<Rightarrow> 'a \<Rightarrow> 'a js_object" where
  "obj_set obj k v = (if k = ''__proto__'' then obj else own_set obj k v)"

definition obj_get :: "'a js_object \<Rightarrow> string \<Rightarrow> 'a option" where
  "obj_get obj k = map_of obj k"

definition is_digit :: "char \<Rightarrow> bool" where
  "is_digit c = (48 \<le> (of_char c :: nat) \<and> (of_char c :: nat) \<le> 57)"

definition decimal_value :: "string \<Rightarrow> nat" where
  "decimal_value s = foldl (\<lambda>n c. 10 * n + ((of_char c :: nat) - 48)) 0 s"

definition array_index :: "string \<Rightarrow> nat option" where
  "array_index k =
     (if k \<noteq> [] \<and> list_all is_digit k \<and> (k = ''0'' \<or> hd k \<noteq> CHR ''0'')
         \<and> decimal_value k \<le> 4294967294
      then Some (decimal_value k) else None)"

definition index_rank :: "string \<times> 'a \<Rightarrow> nat" where
  "index_rank kv = (case array_index (fst kv) of None \<Rightarrow> 0 | Some n \<Rightarrow> n)"

definition Object_entries :: "'a js_object \<Rightarrow> (string \<times> 'a) list" where
  "Object_entries obj =
     sort_key index_rank (filter (\<lambda>kv. array_index (fst kv) \<noteq> None) obj)
     @ filter (\<lambda>kv. array_index (fst kv) = None) obj"

definition Object_keys :: "'a js_object \<Rightarrow> string list" where
  "Object_keys obj = map fst (Object_entries obj)"

definition Object_values :: "'a js_object \<Rightarrow> 'a list" where
  "Object_values obj = map snd (Object_entries obj)"

subsection \<open>Errors\<close>

text \<open>
  A constructor either returns its object (\<open>Inr\<close>) or throws (\<open>Inl\<close>). The classes of
  \<open>lib/\<close> contain no \<open>throw\<close> statement; calling a method on \<open>undefined\<close> throws a
  \<open>TypeError\<close>. The constructors of the provisioning library are taken as builders of
  resource descriptions.
\<close>

datatype error = ConfigurationError | TypeError

section \<open>Configuration (\<open>config/app-config\<close>)\<close>

datatype database_type = dynamodb | aurora_serverless

datatype engine = mysql | postgres

record gsi_config =
  gc_indexName :: string
  gc_partitionKey :: string
  gc_sortKey :: "string option"

record table_config =
  tc_name :: string
  tc_partitionKey :: string
  tc_sortKey :: "string option"
  tc_gsi :: "gsi_config list option"

record aurora_config =
  ac_databaseName :: string
  ac_masterUsername :: string
  ac_engine :: engine
  ac_enableHttpEndpoint :: "bool option"

record DatabaseConfig =
  dc_type :: database_type
  dc_dynamoTables :: "table_config list option"
  dc_auroraConfig :: "aurora_config option"

record throttle_config =
  th_rateLimit :: int
  th_burstLimit :: int

record cors_config =
  co_allowOrigins :: "string list"
  co_allowMethods :: "string list"
  co_allowHeaders :: "string list"

record api_config =
  ap_stageName :: string
  ap_throttle :: "throttle_config option"
  ap_cors :: "cors_config option"

datatype runtime = nodejs18_x | nodejs20_x | python3_9 | python3_10 | python3_11

record lambda_config =
  lc_runtime :: runtime
  lc_timeout :: int
  lc_memorySize :: int

record custom_domain =
  cd_domainName :: string
  cd_certificateArn :: "string option"

record s3_config =
  s3_enableWebsiteHosting :: bool
  s3_enableCloudFront :: "bool option"
  s3_customDomain :: "custom_domain option"

record monitoring_config =
  mo_enableXRay :: bool
  mo_enableCloudWatchLogs :: bool
  mo_logRetentionDays :: int

record AppConfig =
  cfg_projectName :: string
  cfg_environment :: string
  cfg_account :: "string option"
  cfg_region :: "string option"
  cfg_database :: DatabaseConfig
  cfg_api :: api_config
  cfg_lambda :: lambda_config
  cfg_s3 :: s3_config
  cfg_monitoring :: "monitoring_config option"

section \<open>The database construct (\<open>lib/constructs/database-construct\<close>)\<close>

datatype removal_policy = RETAIN | DESTROY

datatype attribute_type = STRING

datatype billing_mode = PAY_PER_REQUEST

datatype table_encryption = AWS_MANAGED

record key_attribute =
  ka_name :: string
  ka_type :: attribute_type

record global_secondary_index =
  gsi_indexName :: string
  gsi_partitionKey :: key_attribute
  gsi_sortKey :: "key_attribute option"

record Table =
  tb_id :: string
  tb_tableName :: string
  tb_partitionKey :: key_attribute
  tb_sortKey :: "key_attribute option"
  tb_billingMode :: billing_mode
  tb_removalPolicy :: removal_policy
  tb_pointInTimeRecovery :: bool
  tb_encryption :: table_encryption
  tb_globalSecondaryIndexes :: "global_secondary_index list"

datatype subnet_type = PUBLIC | PRIVATE_WITH_EGRESS | PRIVATE_ISOLATED

record subnet_configuration =
  sn_cidrMask :: nat
  sn_name :: string
  sn_subnetType :: subnet_type

record Vpc =
  vpc_id :: string
  vpc_vpcName :: string
  vpc_maxAzs :: nat
  vpc_natGateways :: nat
  vpc_subnetConfiguration :: "subnet_configuration list"

record Secret =
  se_id :: string
  se_secretName :: string
  se_username :: string
  se_generateStringKey :: string
  se_excludeCharacters :: string

datatype cluster_engine = auroraMysql_VER_3_02_0 | auroraPostgres_VER_13_7

datatype capacity_unit = ACU_2 | ACU_16 | ACU_64

record ServerlessCluster =
  cl_id :: string
  cl_clusterIdentifier :: string
  cl_engine :: cluster_engine
  cl_credentials :: Secret
  cl_defaultDatabaseName :: string
  cl_vpc :: Vpc
  cl_vpcSubnets :: subnet_type
  cl_autoPauseMinutes :: nat
  cl_minCapacity :: capacity_unit
  cl_maxCapacity :: capacity_unit
  cl_removalPolicy :: removal_policy
  cl_deletionProtection :: bool

record DatabaseConstruct =
  dynamoTables :: "Table js_object option"
  auroraCluster :: "ServerlessCluster option"
  auroraSecret :: "Secret option"
  vpc :: "Vpc option"

definition key_of :: "string \<Rightarrow> key_attribute" where
  "key_of n = \<lparr>ka_name = n, ka_type = STRING\<rparr>"

text \<open>\<open>k ? {name: k, type: STRING} : undefined\<close>: an empty key name is falsy.\<close>

definition optional_key :: "string option \<Rightarrow> key_attribute option" where
  "optional_key k = (if truthy_string_opt k then map_option key_of k else None)"

definition addGlobalSecondaryIndex :: "Table \<Rightarrow> gsi_config \<Rightarrow> Table" where
  "addGlobalSecondaryIndex table gsiConfig =
     table\<lparr>tb_globalSecondaryIndexes := tb_globalSecondaryIndexes table @
       [\<lparr>gsi_indexName = gc_indexName gsiConfig,
         gsi_partitionKey = key_of (gc_partitionKey gsiConfig),
         gsi_sortKey = optional_key (gc_sortKey gsiConfig)\<rparr>]\<rparr>"

definition new_Table :: "table_config \<Rightarrow> string \<Rightarrow> string \<Rightarrow> Table" where
  "new_Table tableConfig projectName environment =
     \<lparr>tb_id = tc_name tableConfig @ ''Table'',
      tb_tableName = projectName @ ''-'' @ environment @ ''-'' @ tc_name tableConfig,
      tb_partitionKey = key_of (tc_partitionKey tableConfig),
      tb_sortKey = optional_key (tc_sortKey tableConfig),
      tb_billingMode = PAY_PER_REQUEST,
      tb_removalPolicy = (if environment = ''prod'' then RETAIN else DESTROY),
      tb_pointInTimeRecovery = (environment = ''prod''),
      tb_encryption = AWS_MANAGED,
      tb_globalSecondaryIndexes = []\<rparr>"

text \<open>The body of \<open>config.dynamoTables.forEach\<close> in \<open>setupDynamoDB\<close>.\<close>

definition setupDynamoDB_step ::
  "string \<Rightarrow> string \<Rightarrow> table_config \<Rightarrow> Table js_object \<Rightarrow> Table js_object" where
  "setupDynamoDB_step projectName environment tableConfig tables =
     (let table = new_Table tableConfig projectName environment;
          table' = (case tc_gsi tableConfig of
                      None \<Rightarrow> table
                    | Some gsis \<Rightarrow> foldl addGlobalSecondaryIndex table gsis)
      in obj_set tables (tc_name tableConfig) table')"

definition setupDynamoDB ::
  "DatabaseConfig \<Rightarrow> string \<Rightarrow> string \<Rightarrow> DatabaseConstruct \<Rightarrow> DatabaseConstruct" where
  "setupDynamoDB config projectName environment this =
     (case dc_dynamoTables config of
        None \<Rightarrow> this
      | Some tableConfigs \<Rightarrow>
          this\<lparr>dynamoTables :=
            Some (foldl (\<lambda>tables tableConfig.
                           setupDynamoDB_step projectName environment tableConfig tables)
                    [] tableConfigs)\<rparr>)"

definition setupAuroraServerless ::
  "DatabaseConfig \<Rightarrow> string \<Rightarrow> string \<Rightarrow> DatabaseConstruct \<Rightarrow> DatabaseConstruct" where
  "setupAuroraServerless config projectName environment this =
     (case dc_auroraConfig config of
        None \<Rightarrow> this
      | Some auroraConfig \<Rightarrow>
          (let v = \<lparr>vpc_id = ''VPC'',
                    vpc_vpcName = projectName @ ''-'' @ environment @ ''-vpc'',
                    vpc_maxAzs = 2,
                    vpc_natGateways = (if environment = ''prod'' then 2 else 1),
                    vpc_subnetConfiguration =
                      [\<lparr>sn_cidrMask = 24, sn_name = ''Public'', sn_subnetType = PUBLIC\<rparr>,
                       \<lparr>sn_cidrMask = 24, sn_name = ''Private'',
                        sn_subnetType = PRIVATE_WITH_EGRESS\<rparr>,
                       \<lparr>sn_cidrMask = 24, sn_name = ''Isolated'',
                        sn_subnetType = PRIVATE_ISOLATED\<rparr>]\<rparr>;
               secret = \<lparr>se_id = ''AuroraSecret'',
                         se_secretName = projectName @ ''-'' @ environment @ ''-aurora-credentials'',
                         se_username = ac_masterUsername auroraConfig,
                         se_generateStringKey = ''password'',
                         se_excludeCharacters = [CHR 0x22, CHR ''@'', CHR ''/'', CHR 0x5C]\<rparr>;
               cluster = \<lparr>cl_id = ''AuroraCluster'',
                          cl_clusterIdentifier = projectName @ ''-'' @ environment @ ''-aurora'',
                          cl_engine = (if ac_engine auroraConfig = mysql
                                       then auroraMysql_VER_3_02_0 else auroraPostgres_VER_13_7),
                          cl_credentials = secret,
                          cl_defaultDatabaseName = ac_databaseName auroraConfig,
                          cl_vpc = v,
                          cl_vpcSubnets = PRIVATE_ISOLATED,
                          cl_autoPauseMinutes = (if environment = ''prod'' then 0 else 10),
                          cl_minCapacity = ACU_2,
                          cl_maxCapacity = (if environment = ''prod'' then ACU_64 else ACU_16),
                          cl_removalPolicy = (if environment = ''prod'' then RETAIN else DESTROY),
                          cl_deletionProtection = (environment = ''prod'')\<rparr>
           in this\<lparr>vpc := Some v, auroraSecret := Some secret, auroraCluster := Some cluster\<rparr>))"

text \<open>
  \<open>new DatabaseConstruct(scope, id, {config, projectName, environment})\<close>: the four
  public fields start out undefined.
\<close>

definition new_DatabaseConstruct ::
  "DatabaseConfig \<Rightarrow> string \<Rightarrow> string \<Rightarrow> error + DatabaseConstruct" where
  "new_DatabaseConstruct config projectName environment =
     (let this = \<lparr>dynamoTables = None, auroraCluster = None, auroraSecret = None, vpc = None\<rparr>
      in Inr (case dc_type config of
                dynamodb \<Rightarrow> setupDynamoDB config projectName environment this
              | aurora_serverless \<Rightarrow> setupAuroraServerless config projectName environment this))"

section \<open>The static-assets construct (\<open>lib/constructs/s3-construct\<close>)\<close>

datatype block_public_access = BLOCK_ALL | BLOCK_ACLS

datatype price_class = PRICE_CLASS_ALL | PRICE_CLASS_100

record policy_statement =
  ps_effect :: string
  ps_principals :: "tstring list"
  ps_actions :: "string list"
  ps_resources :: "tstring list"

record cors_rule =
  cr_allowedMethods :: "string list"
  cr_allowedOrigins :: "string list"
  cr_allowedHeaders :: "string list"

record Bucket =
  bk_id :: string
  bk_bucketName :: string
  bk_versioned :: bool
  bk_removalPolicy :: removal_policy
  bk_autoDeleteObjects :: bool
  bk_publicReadAccess :: bool
  bk_blockPublicAccess :: block_public_access
  bk_websiteIndexDocument :: "string option"
  bk_websiteErrorDocument :: "string option"
  bk_cors :: "cors_rule list"
  bk_resourcePolicy :: "policy_statement list"

record OriginAccessIdentity =
  oai_id :: string
  oai_comment :: string

record error_response =
  er_httpStatus :: nat
  er_responseHttpStatus :: nat
  er_responsePagePath :: string
  er_ttlMinutes :: nat

record Distribution =
  di_id :: string
  di_comment :: string
  di_originBucket :: string
  di_originAccessIdentity :: OriginAccessIdentity
  di_viewerProtocolPolicy :: string
  di_allowedMethods :: string
  di_cachedMethods :: string
  di_compress :: bool
  di_cachePolicy :: string
  di_domainNames :: "string list option"
  di_certificate :: "string option"
  di_defaultRootObject :: string
  di_errorResponses :: "error_response list"
  di_priceClass :: price_class

record BucketDeployment =
  bd_id :: string
  bd_sources :: "string list"
  bd_destinationBucket :: string

record S3Construct =
  bucket :: Bucket
  distribution :: "Distribution option"
  websiteUrl :: "tstring option"
  distributionDomainName :: "tstring option"
  sampleFiles :: "BucketDeployment option"

text \<open>\<open>config.customDomain?.certificateArn\<close> and \<open>config.customDomain?.domainName\<close>.\<close>

definition customDomain_certificateArn :: "s3_config \<Rightarrow> string option" where
  "customDomain_certificateArn config =
     (case s3_customDomain config of None \<Rightarrow> None | Some d \<Rightarrow> cd_certificateArn d)"

definition customDomain_domainName :: "s3_config \<Rightarrow> string option" where
  "customDomain_domainName config =
     (case s3_customDomain config of None \<Rightarrow> None | Some d \<Rightarrow> Some (cd_domainName d))"

definition createCloudFrontDistribution ::
  "s3_config \<Rightarrow> string \<Rightarrow> string \<Rightarrow> S3Construct \<Rightarrow> S3Construct" where
  "createCloudFrontDistribution config projectName environment this =
     (let originAccessIdentity =
            \<lparr>oai_id = ''OriginAccessIdentity'',
             oai_comment = ''OAI for '' @ projectName @ ''-'' @ environment\<rparr>;
          b = bucket this;
          b' = b\<lparr>bk_resourcePolicy := bk_resourcePolicy b @
                 [\<lparr>ps_effect = ''Allow'',
                   ps_principals = [[Tok OriginAccessIdentityPrincipal]],
                   ps_actions = [''s3:GetObject''],
                   ps_resources = [[Tok (BucketObjectsArn ''*'')]]\<rparr>]\<rparr>;
          certificate =
            (if truthy_string_opt (customDomain_certificateArn config)
             then customDomain_certificateArn config else None);
          d = \<lparr>di_id = ''Distribution'',
               di_comment = projectName @ ''-'' @ environment @ '' static assets distribution'',
               di_originBucket = bk_bucketName b',
               di_originAccessIdentity = originAccessIdentity,
               di_viewerProtocolPolicy = ''REDIRECT_TO_HTTPS'',
               di_allowedMethods = ''ALLOW_GET_HEAD_OPTIONS'',
               di_cachedMethods = ''CACHE_GET_HEAD_OPTIONS'',
               di_compress = True,
               di_cachePolicy = ''CACHING_OPTIMIZED'',
               di_domainNames =
                 (if truthy_string_opt (customDomain_domainName config)
                  then map_option (\<lambda>n. [n]) (customDomain_domainName config) else None),
               di_certificate = certificate,
               di_defaultRootObject = ''index.html'',
               di_errorResponses =
                 [\<lparr>er_httpStatus = 403, er_responseHttpStatus = 200,
                   er_responsePagePath = ''/index.html'', er_ttlMinutes = 30\<rparr>,
                  \<lparr>er_httpStatus = 404, er_responseHttpStatus = 200,
                   er_responsePagePath = ''/index.html'', er_ttlMinutes = 30\<rparr>],
               di_priceClass =
                 (if environment = ''prod'' then PRICE_CLASS_ALL else PRICE_CLASS_100)\<rparr>;
          domain = [Tok DistributionDomainName]
      in this\<lparr>bucket := b',
              distribution := Some d,
              distributionDomainName := Some domain,
              websiteUrl := Some (Lit ''https://'' # domain)\<rparr>)"

definition addSampleFiles :: "S3Construct \<Rightarrow> S3Construct" where
  "addSampleFiles this =
     this\<lparr>sampleFiles := Some \<lparr>bd_id = ''SampleFiles'', bd_sources = [''index.html''],
                                bd_destinationBucket = bk_bucketName (bucket this)\<rparr>\<rparr>"

text \<open>
  \<open>new S3Construct(scope, id, {config, projectName, environment})\<close>. The bucket name ends
  in \<open>Math.random().toString(36).substring(7)\<close>; that draw is the argument \<open>suffix\<close>.
\<close>

definition new_S3Construct ::
  "s3_config \<Rightarrow> string \<Rightarrow> string \<Rightarrow> string \<Rightarrow> error + S3Construct" where
  "new_S3Construct config projectName environment suffix =
     (let b = \<lparr>bk_id = ''StaticAssetsBucket'',
               bk_bucketName = projectName @ ''-'' @ environment @ ''-static-assets-'' @ suffix,
               bk_versioned = (environment = ''prod''),
               bk_removalPolicy = (if environment = ''prod'' then RETAIN else DESTROY),
               bk_autoDeleteObjects = (environment \<noteq> ''prod''),
               bk_publicReadAccess =
                 (s3_enableWebsiteHosting config \<and> \<not> truthy_bool_opt (s3_enableCloudFront config)),
               bk_blockPublicAccess =
                 (if truthy_bool_opt (s3_enableCloudFront config) then BLOCK_ALL else BLOCK_ACLS),
               bk_websiteIndexDocument =
                 (if s3_enableWebsiteHosting config then Some ''index.html'' else None),
               bk_websiteErrorDocument =
                 (if s3_enableWebsiteHosting config then Some ''error.html'' else None),
               bk_cors = [\<lparr>cr_allowedMethods = [''GET'', ''HEAD''],
                           cr_allowedOrigins = [''*''],
                           cr_allowedHeaders = [''*'']\<rparr>],
               bk_resourcePolicy = []\<rparr>;
          this0 = \<lparr>bucket = b, distribution = None, websiteUrl = None,
                   distributionDomainName = None, sampleFiles = None\<rparr>;
          this1 = (if s3_enableWebsiteHosting config \<and> \<not> truthy_bool_opt (s3_enableCloudFront config)
                   then this0\<lparr>websiteUrl := Some [Tok BucketWebsiteUrl]\<rparr> else this0);
          this2 = (if truthy_bool_opt (s3_enableCloudFront config)
                   then createCloudFrontDistribution config projectName environment this1
                   else this1)
      in Inr (addSampleFiles this2))"

section \<open>The API construct (\<open>lib/constructs/api-construct\<close>)\<close>

subsection \<open>The object store\<close>

text \<open>
  The execution role and the environment-variable object are created once, changed in
  place and then handed to every function by reference. They live in a store; a reference
  is the position at which the object was allocated.
\<close>

datatype grant =
    GrantReadWriteData Table
  | AddToPolicy policy_statement
  | GrantRead Secret

record Role =
  ro_id :: string
  ro_assumedBy :: string
  ro_managedPolicies :: "string list"
  ro_policy :: "grant list"

datatype obj = RoleObj Role | EnvObj "tstring js_object"

type_synonym ref = nat

type_synonym store = "obj list"

definition alloc :: "store \<Rightarrow> obj \<Rightarrow> ref \<times> store" where
  "alloc h x = (length h, h @ [x])"

definition deref :: "store \<Rightarrow> ref \<Rightarrow> obj option" where
  "deref h r = (if r < length h then Some (h ! r) else None)"

definition role_at :: "store \<Rightarrow> ref \<Rightarrow> Role option" where
  "role_at h r = (case deref h r of Some (RoleObj role) \<Rightarrow> Some role | _ \<Rightarrow> None)"

definition env_at :: "store \<Rightarrow> ref \<Rightarrow> tstring js_object option" where
  "env_at h r = (case deref h r of Some (EnvObj env) \<Rightarrow> Some env | _ \<Rightarrow> None)"

text \<open>\<open>role.addToPolicy\<close>, \<open>table.grantReadWriteData(role)\<close>, \<open>secret.grantRead(role)\<close>.\<close>

definition role_add :: "ref \<Rightarrow> grant \<Rightarrow> store \<Rightarrow> store" where
  "role_add r g h =
     (case role_at h r of
        Some role \<Rightarrow> h[r := RoleObj (role\<lparr>ro_policy := ro_policy role @ [g]\<rparr>)]
      | None \<Rightarrow> h)"

text \<open>\<open>env[key] = value\<close> on the object behind a reference.\<close>

definition env_set :: "ref \<Rightarrow> string \<Rightarrow> tstring \<Rightarrow> store \<Rightarrow> store" where
  "env_set r k v h =
     (case env_at h r of
        Some env \<Rightarrow> h[r := EnvObj (obj_set env k v)]
      | None \<Rightarrow> h)"

subsection \<open>Resources\<close>

record Function =
  fn_id :: string
  fn_functionName :: string
  fn_runtime :: string
  fn_handler :: string
  fn_code :: string
  fn_role :: ref
  fn_timeout :: int
  fn_memorySize :: int
  fn_environment :: ref
  fn_tracing :: string
  fn_logRetention :: string

record api_method =
  am_httpMethod :: string
  am_integration :: "Function option"

datatype api_resource = Resource string "api_method list" "api_resource list"

record deploy_options =
  do_stageName :: string
  do_throttlingRateLimit :: "int option"
  do_throttlingBurstLimit :: "int option"
  do_loggingLevel :: string
  do_dataTraceEnabled :: bool
  do_metricsEnabled :: bool

record RestApi =
  ra_id :: string
  ra_restApiName :: string
  ra_description :: string
  ra_defaultCorsPreflightOptions :: "cors_config option"
  ra_deployOptions :: deploy_options
  ra_cloudWatchRole :: bool
  ra_root :: api_resource

record ApiConstruct =
  restApi :: RestApi
  lambdaFunctions :: "Function js_object"

record function_config =
  fc_name :: string
  fc_method :: string
  fc_path :: string

subsection \<open>\<open>createLambdaExecutionRole\<close>\<close>

definition rds_data_statement :: "ServerlessCluster \<Rightarrow> policy_statement" where
  "rds_data_statement cluster =
     \<lparr>ps_effect = ''Allow'',
      ps_principals = [],
      ps_actions = [''rds-data:ExecuteStatement'',
                    ''rds-data:BatchExecuteStatement'',
                    ''rds-data:BeginTransaction'',
                    ''rds-data:CommitTransaction'',
                    ''rds-data:RollbackTransaction''],
      ps_resources = [[Tok ClusterArn]]\<rparr>"

definition createLambdaExecutionRole :: "DatabaseConstruct \<Rightarrow> store \<Rightarrow> ref \<times> store" where
  "createLambdaExecutionRole db h =
     (let (role, h1) = alloc h (RoleObj
            \<lparr>ro_id = ''LambdaExecutionRole'',
             ro_assumedBy = ''lambda.amazonaws.com'',
             ro_managedPolicies = [''service-role/AWSLambdaBasicExecutionRole'',
                                   ''AWSXRayDaemonWriteAccess''],
             ro_policy = []\<rparr>);
          h2 = (case dynamoTables db of
                  None \<Rightarrow> h1
                | Some tables \<Rightarrow>
                    foldl (\<lambda>h' table. role_add role (GrantReadWriteData table) h')
                      h1 (Object_values tables));
          h3 = (case auroraCluster db of
                  None \<Rightarrow> h2
                | Some cluster \<Rightarrow>
                    (let h' = role_add role (AddToPolicy (rds_data_statement cluster)) h2
                     in case auroraSecret db of
                          None \<Rightarrow> h'
                        | Some secret \<Rightarrow> role_add role (GrantRead secret) h'))
      in (role, h3))"

subsection \<open>\<open>createLambdaFunctions\<close>\<close>

definition newline :: string where
  "newline = [CHR 0x0A]"

definition quote :: string where
  "quote = [CHR 0x27]"

definition getDefaultLambdaCode :: "string \<Rightarrow> string" where
  "getDefaultLambdaCode functionName = concat (map (\<lambda>l. l @ newline)
     [[],
      ''const AWS = require('aws-sdk');'',
      [],
      ''exports.handler = async (event) => {'',
      ''    console.log('Event:', JSON.stringify(event, null, 2));'',
      ''    '',
      ''    const response = {'',
      ''        statusCode: 200,'',
      ''        headers: {'',
      ''            'Content-Type': 'application/json','',
      ''            'Access-Control-Allow-Origin': '*','',
      ''            'Access-Control-Allow-Methods': 'GET, POST, PUT, DELETE, OPTIONS','',
      ''            'Access-Control-Allow-Headers': 'Content-Type, Authorization','',
      ''        },'',
      ''        body: JSON.stringify({'',
      ''            message: 'Hello from '' @ functionName @ ''!','',
      ''            function: '' @ quote @ functionName @ quote @ '','',
      ''            environment: process.env.ENVIRONMENT,'',
      ''            timestamp: new Date().toISOString(),'',
      ''            event: event,'',
      ''        }),'',
      ''    };'',
      ''    '',
      ''    return response;'',
      ''};''])"

definition functionConfigs :: "function_config list" where
  "functionConfigs =
     [\<lparr>fc_name = ''GetItems'', fc_method = ''GET'', fc_path = ''/items''\<rparr>,
      \<lparr>fc_name = ''CreateItem'', fc_method = ''POST'', fc_path = ''/items''\<rparr>,
      \<lparr>fc_name = ''GetItem'', fc_method = ''GET'', fc_path = ''/items/{id}''\<rparr>,
      \<lparr>fc_name = ''UpdateItem'', fc_method = ''PUT'', fc_path = ''/items/{id}''\<rparr>,
      \<lparr>fc_name = ''DeleteItem'', fc_method = ''DELETE'', fc_path = ''/items/{id}''\<rparr>,
      \<lparr>fc_name = ''GetUsers'', fc_method = ''GET'', fc_path = ''/users''\<rparr>,
      \<lparr>fc_name = ''CreateUser'', fc_method = ''POST'', fc_path = ''/users''\<rparr>,
      \<lparr>fc_name = ''GetUser'', fc_method = ''GET'', fc_path = ''/users/{id}''\<rparr>]"

definition new_Function ::
  "lambda_config \<Rightarrow> string \<Rightarrow> string \<Rightarrow> ref \<Rightarrow> ref \<Rightarrow> function_config \<Rightarrow> Function" where
  "new_Function lambdaConfig projectName environment role commonEnvironment config =
     \<lparr>fn_id = fc_name config @ ''Function'',
      fn_functionName = projectName @ ''-'' @ environment @ ''-'' @ toLowerCase (fc_name config),
      fn_runtime = ''NODEJS_18_X'',
      fn_handler = ''index.handler'',
      fn_code = getDefaultLambdaCode (fc_name config),
      fn_role = role,
      fn_timeout = lc_timeout lambdaConfig,
      fn_memorySize = lc_memorySize lambdaConfig,
      fn_environment = commonEnvironment,
      fn_tracing = ''ACTIVE'',
      fn_logRetention = ''TWO_WEEKS''\<rparr>"

text \<open>
  The loop \<open>functionConfigs.forEach\<close> of \<open>createLambdaFunctions\<close>, over any catalogue; the
  source runs it on \<^const>\<open>functionConfigs\<close>.
\<close>

definition createLambdaFunctions_loop ::
  "lambda_config \<Rightarrow> string \<Rightarrow> string \<Rightarrow> ref \<Rightarrow> ref \<Rightarrow> function_config list
     \<Rightarrow> Function js_object \<Rightarrow> Function js_object" where
  "createLambdaFunctions_loop lambdaConfig projectName environment role commonEnvironment configs fns =
     foldl (\<lambda>fns' config.
              obj_set fns' (fc_name config)
                (new_Function lambdaConfig projectName environment role commonEnvironment config))
       fns configs"

definition createLambdaFunctions ::
  "lambda_config \<Rightarrow> string \<Rightarrow> string \<Rightarrow> ref \<Rightarrow> DatabaseConstruct
     \<Rightarrow> ApiConstruct \<Rightarrow> store \<Rightarrow> ApiConstruct \<times> store" where
  "createLambdaFunctions lambdaConfig projectName environment role db this h =
     (let (commonEnvironment, h1) = alloc h (EnvObj
            [(''PROJECT_NAME'', [Lit projectName]),
             (''ENVIRONMENT'', [Lit environment]),
             (''DATABASE_TYPE'',
                [Lit (if dynamoTables db \<noteq> None then ''dynamodb'' else ''aurora-serverless'')])]);
          h2 = (case dynamoTables db of
                  None \<Rightarrow> h1
                | Some tables \<Rightarrow>
                    foldl (\<lambda>h' (name, table).
                             env_set commonEnvironment
                               (''DYNAMODB_TABLE_'' @ toUpperCase name)
                               [Lit (tb_tableName table)] h')
                      h1 (Object_entries tables));
          h3 = (if auroraCluster db \<noteq> None \<and> auroraSecret db \<noteq> None
                then env_set commonEnvironment ''AURORA_SECRET_ARN'' [Tok SecretArn]
                       (env_set commonEnvironment ''AURORA_CLUSTER_ARN'' [Tok ClusterArn] h2)
                else h2)
      in (this\<lparr>lambdaFunctions :=
                  createLambdaFunctions_loop lambdaConfig projectName environment role
                    commonEnvironment functionConfigs (lambdaFunctions this)\<rparr>,
          h3))"

subsection \<open>\<open>setupApiRoutes\<close> and the constructor\<close>

definition integration :: "ApiConstruct \<Rightarrow> string \<Rightarrow> string \<Rightarrow> api_method" where
  "integration this httpMethod name =
     \<lparr>am_httpMethod = httpMethod, am_integration = obj_get (lambdaFunctions this) name\<rparr>"

definition setupApiRoutes :: "ApiConstruct \<Rightarrow> ApiConstruct" where
  "setupApiRoutes this =
     (let itemResource = Resource ''{id}''
            [integration this ''GET'' ''GetItem'',
             integration this ''PUT'' ''UpdateItem'',
             integration this ''DELETE'' ''DeleteItem''] [];
          itemsResource = Resource ''items''
            [integration this ''GET'' ''GetItems'',
             integration this ''POST'' ''CreateItem''] [itemResource];
          userResource = Resource ''{id}'' [integration this ''GET'' ''GetUser''] [];
          usersResource = Resource ''users''
            [integration this ''GET'' ''GetUsers'',
             integration this ''POST'' ''CreateUser''] [userResource]
      in case ra_root (restApi this) of
           Resource pathPart methods children \<Rightarrow>
             this\<lparr>restApi := (restApi this)\<lparr>ra_root :=
               Resource pathPart methods (children @ [itemsResource, usersResource])\<rparr>\<rparr>)"

text \<open>
  \<open>new ApiConstruct(scope, id, {config, lambdaConfig, projectName, environment, database})\<close>,
  run on the store it finds; it returns the construct and the store it leaves.
\<close>

definition new_ApiConstruct ::
  "api_config \<Rightarrow> lambda_config \<Rightarrow> string \<Rightarrow> string \<Rightarrow> DatabaseConstruct \<Rightarrow> store
     \<Rightarrow> error + (ApiConstruct \<times> store)" where
  "new_ApiConstruct config lambdaConfig projectName environment db h =
     (let this0 =
            \<lparr>restApi =
               \<lparr>ra_id = ''RestApi'',
                ra_restApiName = projectName @ ''-'' @ environment @ ''-api'',
                ra_description = ''API for '' @ projectName @ '' '' @ environment,
                ra_defaultCorsPreflightOptions = ap_cors config,
                ra_deployOptions =
                  \<lparr>do_stageName = ap_stageName config,
                   do_throttlingRateLimit = map_option th_rateLimit (ap_throttle config),
                   do_throttlingBurstLimit = map_option th_burstLimit (ap_throttle config),
                   do_loggingLevel = ''INFO'',
                   do_dataTraceEnabled = True,
                   do_metricsEnabled = True\<rparr>,
                ra_cloudWatchRole = True,
                ra_root = Resource [] [] []\<rparr>,
             lambdaFunctions = []\<rparr>;
          (lambdaRole, h1) = createLambdaExecutionRole db h;
          (this1, h2) =
            createLambdaFunctions lambdaConfig projectName environment lambdaRole db this0 h1
      in Inr (setupApiRoutes this1, h2))"

section \<open>The monitoring construct (\<open>lib/constructs/monitoring-construct\<close>)\<close>

record metric =
  me_resource :: string
  me_metricName :: string

record GraphWidget =
  gw_title :: string
  gw_left :: "metric list"
  gw_right :: "metric list"

record Dashboard =
  da_id :: string
  da_dashboardName :: string
  da_widgets :: "GraphWidget list"

record MonitoringConstruct =
  dashboard :: "Dashboard option"

definition addWidgets :: "GraphWidget list \<Rightarrow> MonitoringConstruct \<Rightarrow> MonitoringConstruct" where
  "addWidgets ws this =
     this\<lparr>dashboard := map_option (\<lambda>d. d\<lparr>da_widgets := da_widgets d @ ws\<rparr>) (dashboard this)\<rparr>"

definition addApiMetrics :: "ApiConstruct \<Rightarrow> MonitoringConstruct \<Rightarrow> MonitoringConstruct" where
  "addApiMetrics a this =
     (let r = ra_id (restApi a);
          apiWidget = \<lparr>gw_title = ''API Gateway Metrics'',
                       gw_left = [\<lparr>me_resource = r, me_metricName = ''Count''\<rparr>,
                                  \<lparr>me_resource = r, me_metricName = ''Latency''\<rparr>],
                       gw_right = [\<lparr>me_resource = r, me_metricName = ''ClientError''\<rparr>,
                                   \<lparr>me_resource = r, me_metricName = ''ServerError''\<rparr>]\<rparr>
      in addWidgets [apiWidget] this)"

text \<open>\<open>functionNames.map(name => lambdaFunctions[name].metricX())\<close>.\<close>

fun function_metrics :: "Function js_object \<Rightarrow> string \<Rightarrow> string list \<Rightarrow> error + metric list" where
  "function_metrics fns m [] = Inr []"
| "function_metrics fns m (name # names) =
     (case obj_get fns name of
        None \<Rightarrow> Inl TypeError
      | Some f \<Rightarrow>
          (case function_metrics fns m names of
             Inl e \<Rightarrow> Inl e
           | Inr ms \<Rightarrow> Inr (\<lparr>me_resource = fn_id f, me_metricName = m\<rparr> # ms)))"

definition addLambdaMetrics ::
  "Function js_object \<Rightarrow> MonitoringConstruct \<Rightarrow> error + MonitoringConstruct" where
  "addLambdaMetrics fns this =
     (let functionNames = Object_keys fns
      in case function_metrics fns ''Duration'' functionNames of
           Inl e \<Rightarrow> Inl e
         | Inr durationMetrics \<Rightarrow>
      (case function_metrics fns ''Invocations'' functionNames of
           Inl e \<Rightarrow> Inl e
         | Inr invocationMetrics \<Rightarrow>
      (case function_metrics fns ''Errors'' functionNames of
           Inl e \<Rightarrow> Inl e
         | Inr errorMetrics \<Rightarrow>
             Inr (addWidgets
                    [\<lparr>gw_title = ''Lambda Duration'', gw_left = durationMetrics, gw_right = []\<rparr>,
                     \<lparr>gw_title = ''Lambda Invocations & Errors'',
                      gw_left = invocationMetrics, gw_right = errorMetrics\<rparr>]
                    this))))"

definition new_MonitoringConstruct ::
  "monitoring_config option \<Rightarrow> string \<Rightarrow> string \<Rightarrow> ApiConstruct \<Rightarrow> Function js_object
     \<Rightarrow> error + MonitoringConstruct" where
  "new_MonitoringConstruct config projectName environment a fns =
     (case config of
        None \<Rightarrow> Inr \<lparr>dashboard = None\<rparr>
      | Some c \<Rightarrow>
          addLambdaMetrics fns
            (addApiMetrics a
               \<lparr>dashboard = Some \<lparr>da_id = ''Dashboard'',
                                  da_dashboardName = projectName @ ''-'' @ environment @ ''-dashboard'',
                                  da_widgets = []\<rparr>\<rparr>))"

section \<open>The stack (\<open>lib/serverless-webapp-stack\<close>)\<close>

record CfnOutput =
  out_id :: string
  out_value :: tstring
  out_description :: string

record ServerlessWebAppStack =
  st_database :: DatabaseConstruct
  st_api :: ApiConstruct
  st_s3 :: S3Construct
  st_monitoring :: "MonitoringConstruct option"
  st_outputs :: "CfnOutput list"
  st_store :: store

text \<open>The body of \<open>Object.entries(database.dynamoTables).forEach\<close>.\<close>

definition table_output :: "string \<times> Table \<Rightarrow> CfnOutput" where
  "table_output entry =
     (case entry of
        (name, table) \<Rightarrow>
          \<lparr>out_id = ''DynamoTable'' @ name, out_value = [Lit (tb_tableName table)],
           out_description = ''DynamoDB Table: '' @ name\<rparr>)"

text \<open>The outputs, in the order the constructor declares them.\<close>

definition stack_outputs ::
  "AppConfig \<Rightarrow> DatabaseConstruct \<Rightarrow> ApiConstruct \<Rightarrow> S3Construct \<Rightarrow> CfnOutput list" where
  "stack_outputs config db a s =
     [\<lparr>out_id = ''ApiUrl'', out_value = [Tok RestApiUrl], out_description = ''API Gateway URL''\<rparr>]
     @ (if s3_enableWebsiteHosting (cfg_s3 config)
        then [\<lparr>out_id = ''WebsiteUrl'',
               out_value = (case websiteUrl s of
                              None \<Rightarrow> [Lit ''Not configured'']
                            | Some u \<Rightarrow> if tstring_truthy u then u else [Lit ''Not configured'']),
               out_description = ''Website URL''\<rparr>]
        else [])
     @ (case distributionDomainName s of
          None \<Rightarrow> []
        | Some d \<Rightarrow>
            if tstring_truthy d
            then [\<lparr>out_id = ''CloudFrontUrl'', out_value = Lit ''https://'' # d,
                   out_description = ''CloudFront Distribution URL''\<rparr>]
            else [])
     @ [\<lparr>out_id = ''S3BucketName'', out_value = [Lit (bk_bucketName (bucket s))],
         out_description = ''S3 Bucket Name for static assets''\<rparr>]
     @ (if dc_type (cfg_database config) = dynamodb
        then (case dynamoTables db of
                None \<Rightarrow> []
              | Some tables \<Rightarrow>
                  map table_output (Object_entries tables))
        else [])
     @ (if dc_type (cfg_database config) = aurora_serverless
        then (case auroraCluster db of
                None \<Rightarrow> []
              | Some cluster \<Rightarrow>
                  [\<lparr>out_id = ''AuroraClusterEndpoint'', out_value = [Tok ClusterSocketAddress],
                    out_description = ''Aurora Serverless Cluster Endpoint''\<rparr>])
        else [])"

text \<open>
  \<open>new ServerlessWebAppStack(scope, id, {config})\<close> on an empty store; \<open>suffix\<close> is the
  random draw of the bucket name.
\<close>

definition new_ServerlessWebAppStack :: "AppConfig \<Rightarrow> string \<Rightarrow> error + ServerlessWebAppStack" where
  "new_ServerlessWebAppStack config suffix =
     (case new_DatabaseConstruct (cfg_database config)
             (cfg_projectName config) (cfg_environment config) of
        Inl e \<Rightarrow> Inl e
      | Inr db \<Rightarrow>
     (case new_ApiConstruct (cfg_api config) (cfg_lambda config)
             (cfg_projectName config) (cfg_environment config) db [] of
        Inl e \<Rightarrow> Inl e
      | Inr (a, h) \<Rightarrow>
     (case new_S3Construct (cfg_s3 config)
             (cfg_projectName config) (cfg_environment config) suffix of
        Inl e \<Rightarrow> Inl e
      | Inr s \<Rightarrow>
     (case (case cfg_monitoring config of
              None \<Rightarrow> Inr None
            | Some m \<Rightarrow>
                map_sum id Some
                  (new_MonitoringConstruct (Some m)
                     (cfg_projectName config) (cfg_environment config) a (lambdaFunctions a))) of
        Inl e \<Rightarrow> Inl e
      | Inr mon \<Rightarrow>
          Inr \<lparr>st_database = db, st_api = a, st_s3 = s, st_monitoring = mon,
               st_outputs = stack_outputs config db a s, st_store = h\<rparr>))))"

section \<open>Configurations shipped with the repository\<close>

text \<open>\<open>defaultConfig\<close> of \<open>config/app-config\<close> and \<open>ecommerceConfig\<close> of the examples.\<close>

definition defaultConfig :: AppConfig where
  "defaultConfig =
     \<lparr>cfg_projectName = ''my-serverless-app'',
      cfg_environment = ''dev'',
      cfg_account = None,
      cfg_region = None,
      cfg_database =
        \<lparr>dc_type = dynamodb,
         dc_dynamoTables = Some
           [\<lparr>tc_name = ''Users'', tc_partitionKey = ''userId'', tc_sortKey = None,
             tc_gsi = Some [\<lparr>gc_indexName = ''EmailIndex'', gc_partitionKey = ''email'',
                             gc_sortKey = None\<rparr>]\<rparr>,
            \<lparr>tc_name = ''Items'', tc_partitionKey = ''id'', tc_sortKey = Some ''createdAt'',
             tc_gsi = None\<rparr>],
         dc_auroraConfig = None\<rparr>,
      cfg_api =
        \<lparr>ap_stageName = ''api'',
         ap_throttle = Some \<lparr>th_rateLimit = 1000, th_burstLimit = 2000\<rparr>,
         ap_cors = Some \<lparr>co_allowOrigins = [''*''],
                         co_allowMethods = [''GET'', ''POST'', ''PUT'', ''DELETE'', ''OPTIONS''],
                         co_allowHeaders = [''Content-Type'', ''Authorization'']\<rparr>\<rparr>,
      cfg_lambda = \<lparr>lc_runtime = nodejs18_x, lc_timeout = 30, lc_memorySize = 256\<rparr>,
      cfg_s3 = \<lparr>s3_enableWebsiteHosting = True, s3_enableCloudFront = Some True,
                s3_customDomain = None\<rparr>,
      cfg_monitoring = Some \<lparr>mo_enableXRay = True, mo_enableCloudWatchLogs = True,
                             mo_logRetentionDays = 14\<rparr>\<rparr>"

definition ecommerceConfig :: AppConfig where
  "ecommerceConfig =
     \<lparr>cfg_projectName = ''ecommerce-api'',
      cfg_environment = ''prod'',
      cfg_account = None,
      cfg_region = None,
      cfg_database =
        \<lparr>dc_type = aurora_serverless,
         dc_dynamoTables = None,
         dc_auroraConfig = Some \<lparr>ac_databaseName = ''ecommerce'', ac_masterUsername = ''admin'',
                                 ac_engine = postgres, ac_enableHttpEndpoint = Some True\<rparr>\<rparr>,
      cfg_api =
        \<lparr>ap_stageName = ''v2'',
         ap_throttle = Some \<lparr>th_rateLimit = 2000, th_burstLimit = 5000\<rparr>,
         ap_cors = Some \<lparr>co_allowOrigins = [''https://shop.mydomain.com''],
                         co_allowMethods = [''GET'', ''POST'', ''PUT'', ''DELETE'', ''PATCH''],
                         co_allowHeaders = [''Content-Type'', ''Authorization'', ''X-API-Key'']\<rparr>\<rparr>,
      cfg_lambda = \<lparr>lc_runtime = nodejs20_x, lc_timeout = 60, lc_memorySize = 1024\<rparr>,
      cfg_s3 = \<lparr>s3_enableWebsiteHosting = True, s3_enableCloudFront = Some True,
                s3_customDomain = Some
                  \<lparr>cd_domainName = ''shop.mydomain.com'',
                   cd_certificateArn =
                     Some ''arn:aws:acm:us-east-1:123456789012:certificate/abcd1234-...''\<rparr>\<rparr>,
      cfg_monitoring = Some \<lparr>mo_enableXRay = True, mo_enableCloudWatchLogs = True,
                             mo_logRetentionDays = 90\<rparr>\<rparr>"

section \<open>What the API construct leaves in the store\<close>

text \<open>
  The policy that \<open>createLambdaExecutionRole\<close> has attached to the role when it returns,
  and the environment object that \<open>createLambdaFunctions\<close> has filled when it returns,
  written as functions of the database construct. The lemmas
  \<open>createLambdaExecutionRole_eq\<close> and \<open>createLambdaFunctions_eq\<close> below prove that the
  stateful code computes them.
\<close>

definition role_policy_of :: "DatabaseConstruct \<Rightarrow> grant list" where
  "role_policy_of db =
     (case dynamoTables db of
        None \<Rightarrow> []
      | Some tables \<Rightarrow> map GrantReadWriteData (Object_values tables))
     @ (case auroraCluster db of
          None \<Rightarrow> []
        | Some cluster \<Rightarrow>
            AddToPolicy (rds_data_statement cluster)
            # (case auroraSecret db of None \<Rightarrow> [] | Some secret \<Rightarrow> [GrantRead secret]))"

definition lambda_role :: "DatabaseConstruct \<Rightarrow> Role" where
  "lambda_role db =
     \<lparr>ro_id = ''LambdaExecutionRole'',
      ro_assumedBy = ''lambda.amazonaws.com'',
      ro_managedPolicies = [''service-role/AWSLambdaBasicExecutionRole'',
                            ''AWSXRayDaemonWriteAccess''],
      ro_policy = role_policy_of db\<rparr>"

definition common_environment :: "string \<Rightarrow> string \<Rightarrow> DatabaseConstruct \<Rightarrow> tstring js_object" where
  "common_environment projectName environment db =
     (let env0 = [(''PROJECT_NAME'', [Lit projectName]),
                  (''ENVIRONMENT'', [Lit environment]),
                  (''DATABASE_TYPE'',
                     [Lit (if dynamoTables db \<noteq> None then ''dynamodb'' else ''aurora-serverless'')])];
          env1 = (case dynamoTables db of
                    None \<Rightarrow> env0
                  | Some tables \<Rightarrow>
                      foldl (\<lambda>env' x. obj_set env' (''DYNAMODB_TABLE_'' @ toUpperCase (fst x))
                                         [Lit (tb_tableName (snd x))])
                        env0 (Object_entries tables))
      in if auroraCluster db \<noteq> None \<and> auroraSecret db \<noteq> None
         then obj_set (obj_set env1 ''AURORA_CLUSTER_ARN'' [Tok ClusterArn])
                ''AURORA_SECRET_ARN'' [Tok SecretArn]
         else env1)"

fun is_role :: "obj \<Rightarrow> bool" where
  "is_role (RoleObj role) = True"
| "is_role (EnvObj env) = False"

section \<open>Comparing two runs\<close>

text \<open>
  The bucket's name is repeated in the distribution's origin and in the deployment's
  destination. \<open>with_bucket_name n\<close> overwrites the three occurrences, so that two
  static-assets constructs can be compared apart from the name.
\<close>

definition with_bucket_name :: "string \<Rightarrow> S3Construct \<Rightarrow> S3Construct" where
  "with_bucket_name n s =
     s\<lparr>bucket := (bucket s)\<lparr>bk_bucketName := n\<rparr>,
       distribution := map_option (\<lambda>d. d\<lparr>di_originBucket := n\<rparr>) (distribution s),
       sampleFiles := map_option (\<lambda>b. b\<lparr>bd_destinationBucket := n\<rparr>) (sampleFiles s)\<rparr>"

text \<open>The outputs of a list that carry a given identifier, and those that do not.\<close>

fun outputs_with_id :: "string \<Rightarrow> CfnOutput list \<Rightarrow> CfnOutput list" where
  "outputs_with_id k [] = []"
| "outputs_with_id k (x # xs) =
     (if out_id x = k then x # outputs_with_id k xs else outputs_with_id k xs)"

fun outputs_without_id :: "string \<Rightarrow> CfnOutput list \<Rightarrow> CfnOutput list" where
  "outputs_without_id k [] = []"
| "outputs_without_id k (x # xs) =
     (if out_id x = k then outputs_without_id k xs else x # outputs_without_id k xs)"

section \<open>Dictionaries\<close>

lemma obj_get_own_set:
  "obj_get (own_set kvs k v) k' = (if k' = k then Some v else obj_get kvs k')"
  by (induction kvs) (auto simp: obj_get_def)

lemma obj_get_obj_set_other:
  "k' \<noteq> k \<Longrightarrow> obj_get (obj_set kvs k v) k' = obj_get kvs k'"
  by (simp add: obj_set_def obj_get_own_set)



lemma set_Object_entries: "set (Object_entries obj) = set obj"
  by (auto simp: Object_entries_def)

lemma set_Object_keys: "set (Object_keys obj) = fst ` set obj"
  by (simp add: Object_keys_def set_Object_entries)

section \<open>The store\<close>

lemma role_at_append_new: "role_at (h @ [RoleObj role]) (length h) = Some role"
  by (simp add: role_at_def deref_def)

lemma role_add_fold:
  "role_at h r = Some role \<Longrightarrow>
   foldl (\<lambda>h' x. role_add r (f x) h') h xs =
     h[r := RoleObj (role\<lparr>ro_policy := ro_policy role @ map f xs\<rparr>)]"
proof (induction xs arbitrary: h role)
  case Nil
  then have "r < length h" "h ! r = RoleObj role"
    by (auto simp: role_at_def deref_def split: if_splits option.splits obj.splits)
  then show ?case
    using list_update_id [of h r] by simp
next
  case (Cons x xs)
  let ?role' = "role\<lparr>ro_policy := ro_policy role @ [f x]\<rparr>"
  from Cons.prems have lt: "r < length h"
    by (auto simp: role_at_def deref_def split: if_splits)
  have step: "role_add r (f x) h = h[r := RoleObj ?role']"
    using Cons.prems by (simp add: role_add_def)
  have at: "role_at (h[r := RoleObj ?role']) r = Some ?role'"
    using lt by (simp add: role_at_def deref_def)
  show ?case
    using Cons.IH [OF at] step by simp
qed

lemma role_add_last:
  "role_add (length h) g (h @ [RoleObj role]) =
     h @ [RoleObj (role\<lparr>ro_policy := ro_policy role @ [g]\<rparr>)]"
  by (simp add: role_add_def role_at_append_new)

lemma role_add_fold_last:
  "foldl (\<lambda>h' x. role_add (length h) (f x) h') (h @ [RoleObj role]) xs =
     h @ [RoleObj (role\<lparr>ro_policy := ro_policy role @ map f xs\<rparr>)]"
  by (simp add: role_add_fold [OF role_at_append_new])

lemma env_at_append_new: "env_at (h @ [EnvObj env]) (length h) = Some env"
  by (simp add: env_at_def deref_def)

lemma env_set_fold:
  "env_at h r = Some env \<Longrightarrow>
   foldl (\<lambda>h' x. env_set r (kf x) (vf x) h') h xs =
     h[r := EnvObj (foldl (\<lambda>env' x. obj_set env' (kf x) (vf x)) env xs)]"
proof (induction xs arbitrary: h env)
  case Nil
  then have "r < length h" "h ! r = EnvObj env"
    by (auto simp: env_at_def deref_def split: if_splits option.splits obj.splits)
  then show ?case
    using list_update_id [of h r] by simp
next
  case (Cons x xs)
  let ?env' = "obj_set env (kf x) (vf x)"
  from Cons.prems have lt: "r < length h"
    by (auto simp: env_at_def deref_def split: if_splits)
  have step: "env_set r (kf x) (vf x) h = h[r := EnvObj ?env']"
    using Cons.prems by (simp add: env_set_def)
  have at: "env_at (h[r := EnvObj ?env']) r = Some ?env'"
    using lt by (simp add: env_at_def deref_def)
  show ?case
    using Cons.IH [OF at] step by simp
qed

lemma env_set_last:
  "env_set (length h) k v (h @ [EnvObj env]) = h @ [EnvObj (obj_set env k v)]"
  by (simp add: env_set_def env_at_append_new)

lemma env_set_fold_last:
  "foldl (\<lambda>h' x. env_set (length h) (kf x) (vf x) h') (h @ [EnvObj env]) xs =
     h @ [EnvObj (foldl (\<lambda>env' x. obj_set env' (kf x) (vf x)) env xs)]"
  by (simp add: env_set_fold [OF env_at_append_new])

lemma obj_get_fold_other:
  "\<forall>x\<in>set xs. kf x \<noteq> k \<Longrightarrow>
   obj_get (foldl (\<lambda>env' x. obj_set env' (kf x) (vf x)) env xs) k = obj_get env k"
  by (induction xs arbitrary: env) (auto simp: obj_get_obj_set_other)

section \<open>The API construct in closed form\<close>

lemma createLambdaExecutionRole_eq:
  "createLambdaExecutionRole db h = (length h, h @ [RoleObj (lambda_role db)])"
  by (simp add: createLambdaExecutionRole_def alloc_def role_policy_of_def lambda_role_def
        Let_def role_add_fold_last role_add_last split: option.splits)

lemma createLambdaFunctions_eq:
  "createLambdaFunctions lambdaConfig projectName environment role db this h =
     (this\<lparr>lambdaFunctions :=
              createLambdaFunctions_loop lambdaConfig projectName environment role
                (length h) functionConfigs (lambdaFunctions this)\<rparr>,
      h @ [EnvObj (common_environment projectName environment db)])"
  by (simp add: createLambdaFunctions_def alloc_def common_environment_def Let_def
        case_prod_unfold env_set_fold_last env_set_last split: option.splits)

lemma functions_loop_catalogue:
  "createLambdaFunctions_loop lambdaConfig projectName environment role env functionConfigs [] =
     map (\<lambda>config. (fc_name config,
                      new_Function lambdaConfig projectName environment role env config))
       functionConfigs"
  by (simp add: createLambdaFunctions_loop_def functionConfigs_def obj_set_def)

lemma new_ApiConstruct_eq:
  "\<exists>a. new_ApiConstruct config lambdaConfig projectName environment db h =
          Inr (a, h @ [RoleObj (lambda_role db),
                       EnvObj (common_environment projectName environment db)])
      \<and> lambdaFunctions a =
            map (\<lambda>c. (fc_name c,
                        new_Function lambdaConfig projectName environment
                          (length h) (Suc (length h)) c))
              functionConfigs"
  by (simp add: new_ApiConstruct_def createLambdaExecutionRole_eq createLambdaFunctions_eq
        setupApiRoutes_def functions_loop_catalogue Let_def)

lemma toLowerCase_names:
  "map (toLowerCase \<circ> fc_name) functionConfigs =
     [''getitems'', ''createitem'', ''getitem'', ''updateitem'', ''deleteitem'',
      ''getusers'', ''createuser'', ''getuser'']"
  by code_simp

lemma database_type_tag:
  "obj_get (common_environment projectName environment db) ''DATABASE_TYPE'' =
     Some [Lit (if dynamoTables db \<noteq> None then ''dynamodb'' else ''aurora-serverless'')]"
  by (simp add: common_environment_def Let_def obj_get_obj_set_other obj_get_fold_other
        split: option.splits) (simp add: obj_get_def)

section \<open>Monitoring and the stack\<close>

lemma obj_get_key: "k \<in> fst ` set fns \<Longrightarrow> \<exists>f. obj_get fns k = Some f"
  using map_of_eq_None_iff [of fns k] by (auto simp: obj_get_def)

lemma function_metrics_total:
  "set names \<subseteq> fst ` set fns \<Longrightarrow> \<exists>ms. function_metrics fns m names = Inr ms"
proof (induction names)
  case Nil
  then show ?case by simp
next
  case (Cons name names)
  then obtain f ms where "obj_get fns name = Some f" "function_metrics fns m names = Inr ms"
    using obj_get_key [of name fns] by auto
  then show ?case by simp
qed

lemma addLambdaMetrics_total: "\<exists>r. addLambdaMetrics fns this = Inr r"
proof -
  have keys: "set (Object_keys fns) \<subseteq> fst ` set fns"
    by (simp add: set_Object_keys)
  obtain d i e where
    "function_metrics fns ''Duration'' (Object_keys fns) = Inr d"
    "function_metrics fns ''Invocations'' (Object_keys fns) = Inr i"
    "function_metrics fns ''Errors'' (Object_keys fns) = Inr e"
    using function_metrics_total [OF keys] by meson
  then show ?thesis
    by (simp add: addLambdaMetrics_def)
qed

lemma new_MonitoringConstruct_total:
  "\<exists>r. new_MonitoringConstruct config projectName environment a fns = Inr r"
  by (cases config) (simp_all add: new_MonitoringConstruct_def addLambdaMetrics_total)

lemma new_S3Construct_fields:
  "\<exists>s. new_S3Construct config projectName environment suffix = Inr s
     \<and> bk_bucketName (bucket s) = projectName @ ''-'' @ environment @ ''-static-assets-'' @ suffix
     \<and> websiteUrl s =
          (if truthy_bool_opt (s3_enableCloudFront config)
           then Some [Lit ''https://'', Tok DistributionDomainName]
           else if s3_enableWebsiteHosting config then Some [Tok BucketWebsiteUrl] else None)
     \<and> distributionDomainName s =
          (if truthy_bool_opt (s3_enableCloudFront config)
           then Some [Tok DistributionDomainName] else None)"
  by (simp add: new_S3Construct_def createCloudFrontDistribution_def addSampleFiles_def Let_def)

lemma new_S3Construct_suffix:
  "new_S3Construct config projectName environment suffix1 = Inr s1 \<Longrightarrow>
   new_S3Construct config projectName environment suffix2 = Inr s2 \<Longrightarrow>
   with_bucket_name n s1 = with_bucket_name n s2"
  by (auto simp: new_S3Construct_def createCloudFrontDistribution_def addSampleFiles_def
        with_bucket_name_def Let_def)

lemma new_ServerlessWebAppStack_eq:
  "\<exists>db a h s mon.
      new_DatabaseConstruct (cfg_database config)
          (cfg_projectName config) (cfg_environment config) = Inr db
    \<and> new_ApiConstruct (cfg_api config) (cfg_lambda config)
          (cfg_projectName config) (cfg_environment config) db [] = Inr (a, h)
    \<and> new_S3Construct (cfg_s3 config)
          (cfg_projectName config) (cfg_environment config) suffix = Inr s
    \<and> new_ServerlessWebAppStack config suffix =
          Inr \<lparr>st_database = db, st_api = a, st_s3 = s, st_monitoring = mon,
               st_outputs = stack_outputs config db a s, st_store = h\<rparr>"
proof -
  obtain db where db: "new_DatabaseConstruct (cfg_database config)
          (cfg_projectName config) (cfg_environment config) = Inr db"
    by (simp add: new_DatabaseConstruct_def Let_def)
  obtain a h where a: "new_ApiConstruct (cfg_api config) (cfg_lambda config)
          (cfg_projectName config) (cfg_environment config) db [] = Inr (a, h)"
    using new_ApiConstruct_eq by blast
  obtain s where s: "new_S3Construct (cfg_s3 config)
          (cfg_projectName config) (cfg_environment config) suffix = Inr s"
    using new_S3Construct_fields by blast
  show ?thesis
  proof (cases "cfg_monitoring config")
    case None
    then show ?thesis
      using db a s by (simp add: new_ServerlessWebAppStack_def)
  next
    case (Some m)
    obtain r where "new_MonitoringConstruct (Some m)
        (cfg_projectName config) (cfg_environment config) a (lambdaFunctions a) = Inr r"
      using new_MonitoringConstruct_total by blast
    then show ?thesis
      using db a s Some by (simp add: new_ServerlessWebAppStack_def)
  qed
qed

lemma stack_runs_agree:
  assumes "new_ServerlessWebAppStack config suffix1 = Inr g1"
      and "new_ServerlessWebAppStack config suffix2 = Inr g2"
  shows "st_database g1 = st_database g2 \<and> st_api g1 = st_api g2
       \<and> st_store g1 = st_store g2 \<and> st_monitoring g1 = st_monitoring g2"
  using assms
  by (auto simp: new_ServerlessWebAppStack_def split: sum.splits prod.splits option.splits)

lemma outputs_with_id_append:
  "outputs_with_id k (xs @ ys) = outputs_with_id k xs @ outputs_with_id k ys"
  by (induction xs) simp_all

lemma outputs_without_id_append:
  "outputs_without_id k (xs @ ys) = outputs_without_id k xs @ outputs_without_id k ys"
  by (induction xs) simp_all

lemma table_output_ids:
  "outputs_with_id ''WebsiteUrl'' (map table_output xs) = []"
  "outputs_with_id ''CloudFrontUrl'' (map table_output xs) = []"
  "outputs_without_id ''S3BucketName'' (map table_output xs) = map table_output xs"
  by (induction xs) (auto simp: table_output_def)

lemma stack_site_outputs:
  "\<exists>g. new_ServerlessWebAppStack config suffix = Inr g
     \<and> outputs_with_id ''WebsiteUrl'' (st_outputs g) =
         (if s3_enableWebsiteHosting (cfg_s3 config)
          then [\<lparr>out_id = ''WebsiteUrl'',
                 out_value = (if truthy_bool_opt (s3_enableCloudFront (cfg_s3 config))
                              then [Lit ''https://'', Tok DistributionDomainName]
                              else [Tok BucketWebsiteUrl]),
                 out_description = ''Website URL''\<rparr>]
          else [])
     \<and> outputs_with_id ''CloudFrontUrl'' (st_outputs g) =
         (if truthy_bool_opt (s3_enableCloudFront (cfg_s3 config))
          then [\<lparr>out_id = ''CloudFrontUrl'',
                 out_value = [Lit ''https://'', Tok DistributionDomainName],
                 out_description = ''CloudFront Distribution URL''\<rparr>]
          else [])"
proof -
  obtain db a h s mon where
      s: "new_S3Construct (cfg_s3 config)
          (cfg_projectName config) (cfg_environment config) suffix = Inr s"
    and g: "new_ServerlessWebAppStack config suffix =
          Inr \<lparr>st_database = db, st_api = a, st_s3 = s, st_monitoring = mon,
               st_outputs = stack_outputs config db a s, st_store = h\<rparr>"
    using new_ServerlessWebAppStack_eq by blast
  obtain s' where s': "new_S3Construct (cfg_s3 config)
          (cfg_projectName config) (cfg_environment config) suffix = Inr s'"
    and w': "websiteUrl s' =
          (if truthy_bool_opt (s3_enableCloudFront (cfg_s3 config))
           then Some [Lit ''https://'', Tok DistributionDomainName]
           else if s3_enableWebsiteHosting (cfg_s3 config) then Some [Tok BucketWebsiteUrl] else None)"
    and d': "distributionDomainName s' =
          (if truthy_bool_opt (s3_enableCloudFront (cfg_s3 config))
           then Some [Tok DistributionDomainName] else None)"
    using new_S3Construct_fields [of "cfg_s3 config" "cfg_projectName config"
      "cfg_environment config" suffix] by blast
  from s s' have eq: "s' = s" by simp
  have w: "websiteUrl s =
          (if truthy_bool_opt (s3_enableCloudFront (cfg_s3 config))
           then Some [Lit ''https://'', Tok DistributionDomainName]
           else if s3_enableWebsiteHosting (cfg_s3 config) then Some [Tok BucketWebsiteUrl] else None)"
    using w' eq by simp
  have d: "distributionDomainName s =
          (if truthy_bool_opt (s3_enableCloudFront (cfg_s3 config))
           then Some [Tok DistributionDomainName] else None)"
    using d' eq by simp
  have site: "outputs_with_id ''WebsiteUrl'' (stack_outputs config db a s) =
         (if s3_enableWebsiteHosting (cfg_s3 config)
          then [\<lparr>out_id = ''WebsiteUrl'',
                 out_value = (if truthy_bool_opt (s3_enableCloudFront (cfg_s3 config))
                              then [Lit ''https://'', Tok DistributionDomainName]
                              else [Tok BucketWebsiteUrl]),
                 out_description = ''Website URL''\<rparr>]
          else [])"
    by (simp add: stack_outputs_def outputs_with_id_append w d tstring_truthy_def
          table_output_ids split: option.splits)
  have dist: "outputs_with_id ''CloudFrontUrl'' (stack_outputs config db a s) =
         (if truthy_bool_opt (s3_enableCloudFront (cfg_s3 config))
          then [\<lparr>out_id = ''CloudFrontUrl'',
                 out_value = [Lit ''https://'', Tok DistributionDomainName],
                 out_description = ''CloudFront Distribution URL''\<rparr>]
          else [])"
    by (simp add: stack_outputs_def outputs_with_id_append w d tstring_truthy_def
          table_output_ids split: option.splits)
  show ?thesis
    using g site dist by simp
qed

lemma stack_outputs_suffix:
  assumes "websiteUrl s1 = websiteUrl s2"
      and "distributionDomainName s1 = distributionDomainName s2"
  shows "map out_id (stack_outputs config db a s1) = map out_id (stack_outputs config db a s2)"
    and "outputs_without_id ''S3BucketName'' (stack_outputs config db a s1) =
         outputs_without_id ''S3BucketName'' (stack_outputs config db a s2)"
proof -
  show "map out_id (stack_outputs config db a s1) = map out_id (stack_outputs config db a s2)"
    using assms by (simp add: stack_outputs_def split: option.splits)
  show "outputs_without_id ''S3BucketName'' (stack_outputs config db a s1) =
         outputs_without_id ''S3BucketName'' (stack_outputs config db a s2)"
    using assms
    by (simp add: stack_outputs_def outputs_without_id_append table_output_ids
          split: option.splits)
qed



section \<open>The data tier\<close>






section \<open>Static assets\<close>

text \<open>
  C6. The bucket's access control follows the two flags. With the distribution enabled the
  bucket has no public read access, blocks all public access, and its only policy statement
  lets the origin access identity read objects, whatever the hosting flag. With hosting
  enabled and the distribution disabled the bucket grants public read. With both disabled
  the bucket has no public read access and no policy statement at all.
\<close>

theorem storage_access_control:
  "\<exists>s. new_S3Construct config projectName environment suffix = Inr s \<and>
     (if truthy_bool_opt (s3_enableCloudFront config)
      then \<not> bk_publicReadAccess (bucket s) \<and> bk_blockPublicAccess (bucket s) = BLOCK_ALL
           \<and> bk_resourcePolicy (bucket s) =
                [\<lparr>ps_effect = ''Allow'', ps_principals = [[Tok OriginAccessIdentityPrincipal]],
                  ps_actions = [''s3:GetObject''], ps_resources = [[Tok (BucketObjectsArn ''*'')]]\<rparr>]
      else if s3_enableWebsiteHosting config
      then bk_publicReadAccess (bucket s) \<and> bk_blockPublicAccess (bucket s) = BLOCK_ACLS
      else \<not> bk_publicReadAccess (bucket s) \<and> bk_resourcePolicy (bucket s) = [])"
  by (simp add: new_S3Construct_def createCloudFrontDistribution_def addSampleFiles_def Let_def)

theorem storage_access_control_witness:
  "\<exists>s. new_S3Construct \<lparr>s3_enableWebsiteHosting = True, s3_enableCloudFront = None,
                          s3_customDomain = None\<rparr> ''my-serverless-app'' ''dev'' ''k3x9q'' = Inr s
      \<and> bk_publicReadAccess (bucket s) \<and> bk_blockPublicAccess (bucket s) = BLOCK_ACLS"
  using storage_access_control [of "\<lparr>s3_enableWebsiteHosting = True, s3_enableCloudFront = None,
                          s3_customDomain = None\<rparr>" "''my-serverless-app''" "''dev''" "''k3x9q''"]
  by (simp add: truthy_bool_opt_def)

section \<open>Compute units\<close>

lemma one_unit_per_route_count:
  "\<exists>a h'. new_ApiConstruct config lambdaConfig projectName environment db h = Inr (a, h')
      \<and> length (lambdaFunctions a) = length functionConfigs"
  using new_ApiConstruct_eq [of config lambdaConfig projectName environment db h]
  by auto

text \<open>
  C7. The API construct creates one function per descriptor of its route catalogue
  \<open>functionConfigs\<close> (the only route list the code has: it is written into
  \<open>createLambdaFunctions\<close>): the dictionary of functions has as many entries as the
  catalogue, keyed by the descriptors' names in order, and the units' dictionary keys,
  function names and construct identifiers are all pairwise distinct.
\<close>

theorem one_unit_per_route:
  "\<exists>a h'. new_ApiConstruct config lambdaConfig projectName environment db h = Inr (a, h')
      \<and> length (lambdaFunctions a) = length functionConfigs
      \<and> map fst (lambdaFunctions a) = map fc_name functionConfigs
      \<and> distinct (map fst (lambdaFunctions a))
      \<and> distinct (map (fn_functionName \<circ> snd) (lambdaFunctions a))
      \<and> distinct (map (fn_id \<circ> snd) (lambdaFunctions a))"
proof -
  obtain a where a: "new_ApiConstruct config lambdaConfig projectName environment db h =
          Inr (a, h @ [RoleObj (lambda_role db),
                       EnvObj (common_environment projectName environment db)])"
     and fns: "lambdaFunctions a =
            map (\<lambda>c. (fc_name c,
                        new_Function lambdaConfig projectName environment
                          (length h) (Suc (length h)) c))
              functionConfigs"
    using new_ApiConstruct_eq by blast
  have names: "map fst (lambdaFunctions a) = map fc_name functionConfigs"
    by (simp add: fns comp_def)
  have d1: "distinct (map fc_name functionConfigs)"
    by (simp add: functionConfigs_def)
  have "map (fn_functionName \<circ> snd) (lambdaFunctions a) =
          map (\<lambda>n. projectName @ ''-'' @ environment @ ''-'' @ n)
            (map (toLowerCase \<circ> fc_name) functionConfigs)"
    by (simp add: fns comp_def new_Function_def)
  then have d2: "distinct (map (fn_functionName \<circ> snd) (lambdaFunctions a))"
    by (simp add: toLowerCase_names)
  have "map (fn_id \<circ> snd) (lambdaFunctions a) =
          map (\<lambda>n. n @ ''Function'') (map fc_name functionConfigs)"
    by (simp add: fns comp_def new_Function_def)
  then have d3: "distinct (map (fn_id \<circ> snd) (lambdaFunctions a))"
    by (simp add: functionConfigs_def)
  have d0: "distinct (map fst (lambdaFunctions a))"
    using names d1 by simp
  have len: "length (lambdaFunctions a) = length functionConfigs"
    by (simp add: fns)
  show ?thesis
    using a len names d0 d2 d3 by blast
qed

theorem one_unit_per_route_witness:
  "\<exists>a h'. new_ApiConstruct (cfg_api defaultConfig) (cfg_lambda defaultConfig)
              ''my-serverless-app'' ''dev''
              \<lparr>dynamoTables = Some [], auroraCluster = None, auroraSecret = None, vpc = None\<rparr> []
            = Inr (a, h')
      \<and> length (lambdaFunctions a) = 8
      \<and> distinct (map (fn_functionName \<circ> snd) (lambdaFunctions a))"
  using one_unit_per_route [of "cfg_api defaultConfig" "cfg_lambda defaultConfig"
      "''my-serverless-app''" "''dev''"
      "\<lparr>dynamoTables = Some [], auroraCluster = None, auroraSecret = None, vpc = None\<rparr>" "[]"]
  by (auto simp: functionConfigs_def)



text \<open>
  C10. Every function's environment object carries \<open>DATABASE_TYPE\<close>, and its value follows
  the table dictionary of the database construct, not the configuration: \<open>dynamodb\<close> when
  the dictionary is defined, \<open>aurora-serverless\<close> when it is not. A configuration that
  declares \<open>dynamodb\<close> without a table list yields a construct without the dictionary, so
  its functions are tagged \<open>aurora-serverless\<close>.
\<close>

theorem database_type_tag_follows_table_handle:
  "\<exists>a h'. new_ApiConstruct config lambdaConfig projectName environment db h = Inr (a, h')
      \<and> lambdaFunctions a \<noteq> []
      \<and> (\<forall>f \<in> snd ` set (lambdaFunctions a).
            \<exists>env. env_at h' (fn_environment f) = Some env
              \<and> obj_get env ''DATABASE_TYPE'' =
                    Some [Lit (if dynamoTables db = None
                               then ''aurora-serverless'' else ''dynamodb'')])
      \<and> (\<forall>dconfig. dc_type dconfig = dynamodb \<and> dc_dynamoTables dconfig = None
            \<longrightarrow> (\<exists>db'. new_DatabaseConstruct dconfig projectName environment = Inr db'
                   \<and> dynamoTables db' = None))"
proof -
  obtain a where a: "new_ApiConstruct config lambdaConfig projectName environment db h =
          Inr (a, h @ [RoleObj (lambda_role db),
                       EnvObj (common_environment projectName environment db)])"
     and fns: "lambdaFunctions a =
            map (\<lambda>c. (fc_name c,
                        new_Function lambdaConfig projectName environment
                          (length h) (Suc (length h)) c))
              functionConfigs"
    using new_ApiConstruct_eq by blast
  let ?env = "common_environment projectName environment db"
  let ?h' = "h @ [RoleObj (lambda_role db), EnvObj ?env]"
  have e: "env_at ?h' (Suc (length h)) = Some ?env"
    by (simp add: env_at_def deref_def nth_append)
  have ne: "lambdaFunctions a \<noteq> []"
    by (simp add: fns functionConfigs_def)
  have refs: "\<forall>f \<in> snd ` set (lambdaFunctions a). fn_environment f = Suc (length h)"
    by (auto simp: fns new_Function_def)
  have tag: "obj_get ?env ''DATABASE_TYPE'' =
               Some [Lit (if dynamoTables db = None then ''aurora-serverless'' else ''dynamodb'')]"
    by (simp add: database_type_tag)
  have units: "\<forall>f \<in> snd ` set (lambdaFunctions a).
            \<exists>env. env_at ?h' (fn_environment f) = Some env
              \<and> obj_get env ''DATABASE_TYPE'' =
                    Some [Lit (if dynamoTables db = None
                               then ''aurora-serverless'' else ''dynamodb'')]"
    using refs e tag by auto
  have omitted: "\<forall>dconfig. dc_type dconfig = dynamodb \<and> dc_dynamoTables dconfig = None
            \<longrightarrow> (\<exists>db'. new_DatabaseConstruct dconfig projectName environment = Inr db'
                   \<and> dynamoTables db' = None)"
    by (simp add: new_DatabaseConstruct_def setupDynamoDB_def)
  show ?thesis
    using a ne units omitted by blast
qed

theorem database_type_tag_witness:
  "\<exists>a h'. new_ApiConstruct (cfg_api defaultConfig) (cfg_lambda defaultConfig)
              ''my-serverless-app'' ''dev''
              \<lparr>dynamoTables = None, auroraCluster = None, auroraSecret = None, vpc = None\<rparr> []
            = Inr (a, h')
      \<and> lambdaFunctions a \<noteq> []
      \<and> (\<forall>f \<in> snd ` set (lambdaFunctions a).
            \<exists>env. env_at h' (fn_environment f) = Some env
              \<and> obj_get env ''DATABASE_TYPE'' = Some [Lit ''aurora-serverless''])
      \<and> new_DatabaseConstruct ((cfg_database defaultConfig)\<lparr>dc_dynamoTables := None\<rparr>)
            ''my-serverless-app'' ''dev''
          = Inr \<lparr>dynamoTables = None, auroraCluster = None, auroraSecret = None, vpc = None\<rparr>"
proof -
  have db: "new_DatabaseConstruct ((cfg_database defaultConfig)\<lparr>dc_dynamoTables := None\<rparr>)
            ''my-serverless-app'' ''dev''
          = Inr \<lparr>dynamoTables = None, auroraCluster = None, auroraSecret = None, vpc = None\<rparr>"
    by (simp add: new_DatabaseConstruct_def setupDynamoDB_def defaultConfig_def)
  from database_type_tag_follows_table_handle
      [of "cfg_api defaultConfig" "cfg_lambda defaultConfig" "''my-serverless-app''" "''dev''"
          "\<lparr>dynamoTables = None, auroraCluster = None, auroraSecret = None, vpc = None\<rparr>" "[]"]
  obtain a h' where
    "new_ApiConstruct (cfg_api defaultConfig) (cfg_lambda defaultConfig)
              ''my-serverless-app'' ''dev''
              \<lparr>dynamoTables = None, auroraCluster = None, auroraSecret = None, vpc = None\<rparr> []
            = Inr (a, h')"
    "lambdaFunctions a \<noteq> []"
    "\<forall>f \<in> snd ` set (lambdaFunctions a).
        \<exists>env. env_at h' (fn_environment f) = Some env
          \<and> obj_get env ''DATABASE_TYPE'' = Some [Lit ''aurora-serverless'']"
    by auto
  with db show ?thesis by blast
qed

text \<open>
  C4, as amended. The API construct creates exactly one execution role, whatever the number
  of functions, and every function refers to it. Its policy is decided by the handles of
  the database construct: with the table dictionary alone, one read-write grant per table
  of the dictionary; with the cluster and its secret alone, one statement allowing the five
  \<open>rds-data\<close> actions (ExecuteStatement, BatchExecuteStatement, BeginTransaction,
  CommitTransaction, RollbackTransaction) on the cluster, followed by read access to the
  secret.
\<close>

theorem one_shared_grant:
  "\<exists>a h' r role.
      new_ApiConstruct config lambdaConfig projectName environment db h = Inr (a, h')
      \<and> role_at h' r = Some role
      \<and> length (filter is_role h') = Suc (length (filter is_role h))
      \<and> lambdaFunctions a \<noteq> []
      \<and> (\<forall>f \<in> snd ` set (lambdaFunctions a). fn_role f = r)
      \<and> (\<forall>tables. dynamoTables db = Some tables \<and> auroraCluster db = None
            \<longrightarrow> ro_policy role = map GrantReadWriteData (Object_values tables))
      \<and> (\<forall>cluster secret.
            dynamoTables db = None \<and> auroraCluster db = Some cluster
              \<and> auroraSecret db = Some secret
            \<longrightarrow> ro_policy role =
                  [AddToPolicy
                     \<lparr>ps_effect = ''Allow'',
                      ps_principals = [],
                      ps_actions = [''rds-data:ExecuteStatement'',
                                    ''rds-data:BatchExecuteStatement'',
                                    ''rds-data:BeginTransaction'',
                                    ''rds-data:CommitTransaction'',
                                    ''rds-data:RollbackTransaction''],
                      ps_resources = [[Tok ClusterArn]]\<rparr>,
                   GrantRead secret])"
proof -
  obtain a where a: "new_ApiConstruct config lambdaConfig projectName environment db h =
          Inr (a, h @ [RoleObj (lambda_role db),
                       EnvObj (common_environment projectName environment db)])"
     and fns: "lambdaFunctions a =
            map (\<lambda>c. (fc_name c,
                        new_Function lambdaConfig projectName environment
                          (length h) (Suc (length h)) c))
              functionConfigs"
    using new_ApiConstruct_eq by blast
  let ?h' = "h @ [RoleObj (lambda_role db), EnvObj (common_environment projectName environment db)]"
  have r: "role_at ?h' (length h) = Some (lambda_role db)"
    by (simp add: role_at_def deref_def nth_append)
  have one: "length (filter is_role ?h') = Suc (length (filter is_role h))"
    by simp
  have ne: "lambdaFunctions a \<noteq> []"
    by (simp add: fns functionConfigs_def)
  have sh: "\<forall>f \<in> snd ` set (lambdaFunctions a). fn_role f = length h"
    by (auto simp: fns new_Function_def)
  have keyed: "\<forall>tables. dynamoTables db = Some tables \<and> auroraCluster db = None
            \<longrightarrow> ro_policy (lambda_role db) = map GrantReadWriteData (Object_values tables)"
    by (simp add: lambda_role_def role_policy_of_def)
  have relational: "\<forall>cluster secret.
            dynamoTables db = None \<and> auroraCluster db = Some cluster
              \<and> auroraSecret db = Some secret
            \<longrightarrow> ro_policy (lambda_role db) =
                  [AddToPolicy
                     \<lparr>ps_effect = ''Allow'',
                      ps_principals = [],
                      ps_actions = [''rds-data:ExecuteStatement'',
                                    ''rds-data:BatchExecuteStatement'',
                                    ''rds-data:BeginTransaction'',
                                    ''rds-data:CommitTransaction'',
                                    ''rds-data:RollbackTransaction''],
                      ps_resources = [[Tok ClusterArn]]\<rparr>,
                   GrantRead secret]"
    by (simp add: lambda_role_def role_policy_of_def rds_data_statement_def)
  show ?thesis
    using a r one ne sh keyed relational
    by (intro exI [of _ a] exI [of _ ?h'] exI [of _ "length h"] exI [of _ "lambda_role db"])
       (simp only: simp_thms)
qed

theorem one_shared_grant_witness:
  "\<exists>a h' r role.
      new_ApiConstruct (cfg_api ecommerceConfig) (cfg_lambda ecommerceConfig)
          ''ecommerce-api'' ''prod''
          (projr (new_DatabaseConstruct (cfg_database ecommerceConfig) ''ecommerce-api'' ''prod''))
          []
        = Inr (a, h')
      \<and> role_at h' r = Some role
      \<and> length (filter is_role h') = 1
      \<and> length (lambdaFunctions a) = 8
      \<and> (\<forall>f \<in> snd ` set (lambdaFunctions a). fn_role f = r)
      \<and> ro_policy role =
            [AddToPolicy
               \<lparr>ps_effect = ''Allow'',
                ps_principals = [],
                ps_actions = [''rds-data:ExecuteStatement'',
                              ''rds-data:BatchExecuteStatement'',
                              ''rds-data:BeginTransaction'',
                              ''rds-data:CommitTransaction'',
                              ''rds-data:RollbackTransaction''],
                ps_resources = [[Tok ClusterArn]]\<rparr>,
             GrantRead
               \<lparr>se_id = ''AuroraSecret'',
                se_secretName = ''ecommerce-api-prod-aurora-credentials'',
                se_username = ''admin'',
                se_generateStringKey = ''password'',
                se_excludeCharacters = [CHR 0x22, CHR ''@'', CHR ''/'', CHR 0x5C]\<rparr>]"
proof -
  let ?db = "projr (new_DatabaseConstruct (cfg_database ecommerceConfig) ''ecommerce-api'' ''prod'')"
  let ?secret = "\<lparr>se_id = ''AuroraSecret'',
                se_secretName = ''ecommerce-api-prod-aurora-credentials'',
                se_username = ''admin'',
                se_generateStringKey = ''password'',
                se_excludeCharacters = [CHR 0x22, CHR ''@'', CHR ''/'', CHR 0x5C]\<rparr>"
  have t: "dynamoTables ?db = None"
    by (simp add: new_DatabaseConstruct_def setupAuroraServerless_def ecommerceConfig_def Let_def)
  have c: "auroraCluster ?db \<noteq> None"
    by (simp add: new_DatabaseConstruct_def setupAuroraServerless_def ecommerceConfig_def Let_def)
  have s: "auroraSecret ?db = Some ?secret"
    by (simp add: new_DatabaseConstruct_def setupAuroraServerless_def ecommerceConfig_def Let_def)
  from one_shared_grant [of "cfg_api ecommerceConfig" "cfg_lambda ecommerceConfig"
      "''ecommerce-api''" "''prod''" ?db "[]"]
  obtain a h' r role where
    1: "new_ApiConstruct (cfg_api ecommerceConfig) (cfg_lambda ecommerceConfig)
          ''ecommerce-api'' ''prod'' ?db [] = Inr (a, h')"
    and 2: "role_at h' r = Some role"
    and 3: "length (filter is_role h') = 1"
    and 4: "\<forall>f \<in> snd ` set (lambdaFunctions a). fn_role f = r"
    and 5: "\<forall>cluster secret.
            dynamoTables ?db = None \<and> auroraCluster ?db = Some cluster
              \<and> auroraSecret ?db = Some secret
            \<longrightarrow> ro_policy role =
                  [AddToPolicy
                     \<lparr>ps_effect = ''Allow'',
                      ps_principals = [],
                      ps_actions = [''rds-data:ExecuteStatement'',
                                    ''rds-data:BatchExecuteStatement'',
                                    ''rds-data:BeginTransaction'',
                                    ''rds-data:CommitTransaction'',
                                    ''rds-data:RollbackTransaction''],
                      ps_resources = [[Tok ClusterArn]]\<rparr>,
                   GrantRead secret]"
    by auto
  obtain a' h'' where "new_ApiConstruct (cfg_api ecommerceConfig) (cfg_lambda ecommerceConfig)
          ''ecommerce-api'' ''prod'' ?db [] = Inr (a', h'')"
      and "length (lambdaFunctions a') = length functionConfigs"
    using one_unit_per_route_count by blast
  with 1 have 6: "length (lambdaFunctions a) = 8"
    by (simp add: functionConfigs_def)
  from 5 t c s have 7: "ro_policy role =
                  [AddToPolicy
                     \<lparr>ps_effect = ''Allow'',
                      ps_principals = [],
                      ps_actions = [''rds-data:ExecuteStatement'',
                                    ''rds-data:BatchExecuteStatement'',
                                    ''rds-data:BeginTransaction'',
                                    ''rds-data:CommitTransaction'',
                                    ''rds-data:RollbackTransaction''],
                      ps_resources = [[Tok ClusterArn]]\<rparr>,
                   GrantRead ?secret]"
    by auto
  from 1 2 3 4 6 7 show ?thesis by blast
qed

text \<open>
  C4 as stated fails on the number of actions: for the e-commerce configuration (the
  relational tier) the role's statement allows five \<open>rds-data\<close> actions, not four.
\<close>

theorem relational_grant_actions_counterexample:
  "map_option ro_policy
     (role_at
        (snd (projr (new_ApiConstruct (cfg_api ecommerceConfig) (cfg_lambda ecommerceConfig)
                       ''ecommerce-api'' ''prod''
                       (projr (new_DatabaseConstruct (cfg_database ecommerceConfig)
                                 ''ecommerce-api'' ''prod''))
                       [])))
        0)
     = Some [AddToPolicy
               \<lparr>ps_effect = ''Allow'',
                ps_principals = [],
                ps_actions = [''rds-data:ExecuteStatement'',
                              ''rds-data:BatchExecuteStatement'',
                              ''rds-data:BeginTransaction'',
                              ''rds-data:CommitTransaction'',
                              ''rds-data:RollbackTransaction''],
                ps_resources = [[Tok ClusterArn]]\<rparr>,
             GrantRead
               \<lparr>se_id = ''AuroraSecret'',
                se_secretName = ''ecommerce-api-prod-aurora-credentials'',
                se_username = ''admin'',
                se_generateStringKey = ''password'',
                se_excludeCharacters = [CHR 0x22, CHR ''@'', CHR ''/'', CHR 0x5C]\<rparr>]
   \<and> length [''rds-data:ExecuteStatement'',
               ''rds-data:BatchExecuteStatement'',
               ''rds-data:BeginTransaction'',
               ''rds-data:CommitTransaction'',
               ''rds-data:RollbackTransaction''] \<noteq> (4::nat)"
proof -
  let ?db = "projr (new_DatabaseConstruct (cfg_database ecommerceConfig) ''ecommerce-api'' ''prod'')"
  obtain a where a: "new_ApiConstruct (cfg_api ecommerceConfig) (cfg_lambda ecommerceConfig)
          ''ecommerce-api'' ''prod'' ?db [] =
          Inr (a, [] @ [RoleObj (lambda_role ?db),
                        EnvObj (common_environment ''ecommerce-api'' ''prod'' ?db)])"
    using new_ApiConstruct_eq by blast
  have "ro_policy (lambda_role ?db) =
          [AddToPolicy
               \<lparr>ps_effect = ''Allow'',
                ps_principals = [],
                ps_actions = [''rds-data:ExecuteStatement'',
                              ''rds-data:BatchExecuteStatement'',
                              ''rds-data:BeginTransaction'',
                              ''rds-data:CommitTransaction'',
                              ''rds-data:RollbackTransaction''],
                ps_resources = [[Tok ClusterArn]]\<rparr>,
             GrantRead
               \<lparr>se_id = ''AuroraSecret'',
                se_secretName = ''ecommerce-api-prod-aurora-credentials'',
                se_username = ''admin'',
                se_generateStringKey = ''password'',
                se_excludeCharacters = [CHR 0x22, CHR ''@'', CHR ''/'', CHR 0x5C]\<rparr>]"
    by (simp add: lambda_role_def role_policy_of_def rds_data_statement_def
          new_DatabaseConstruct_def setupAuroraServerless_def ecommerceConfig_def Let_def)
  then show ?thesis
    by (simp add: a role_at_def deref_def)
qed

section \<open>Outputs of the stack\<close>

text \<open>
  C5, as amended. The site output \<open>WebsiteUrl\<close> is declared exactly when hosting is
  enabled, and the distribution output \<open>CloudFrontUrl\<close> exactly when the distribution is
  enabled; each at most once. With both flags off neither appears; with hosting on and the
  distribution off the site output alone appears, with the bucket's website URL; with both
  on both appear and carry the same address \<open>https://<distribution domain>\<close>; with the
  distribution on and hosting off the distribution output alone appears.
\<close>

theorem site_and_distribution_outputs:
  "\<exists>g. new_ServerlessWebAppStack config suffix = Inr g
     \<and> outputs_with_id ''WebsiteUrl'' (st_outputs g) =
         (if s3_enableWebsiteHosting (cfg_s3 config)
          then [\<lparr>out_id = ''WebsiteUrl'',
                 out_value = (if truthy_bool_opt (s3_enableCloudFront (cfg_s3 config))
                              then [Lit ''https://'', Tok DistributionDomainName]
                              else [Tok BucketWebsiteUrl]),
                 out_description = ''Website URL''\<rparr>]
          else [])
     \<and> outputs_with_id ''CloudFrontUrl'' (st_outputs g) =
         (if truthy_bool_opt (s3_enableCloudFront (cfg_s3 config))
          then [\<lparr>out_id = ''CloudFrontUrl'',
                 out_value = [Lit ''https://'', Tok DistributionDomainName],
                 out_description = ''CloudFront Distribution URL''\<rparr>]
          else [])"
  by (rule stack_site_outputs)

theorem site_and_distribution_outputs_witness:
  "\<exists>g. new_ServerlessWebAppStack defaultConfig ''k3x9q'' = Inr g
     \<and> outputs_with_id ''WebsiteUrl'' (st_outputs g) =
          [\<lparr>out_id = ''WebsiteUrl'',
            out_value = [Lit ''https://'', Tok DistributionDomainName],
            out_description = ''Website URL''\<rparr>]
     \<and> outputs_with_id ''CloudFrontUrl'' (st_outputs g) =
          [\<lparr>out_id = ''CloudFrontUrl'',
            out_value = [Lit ''https://'', Tok DistributionDomainName],
            out_description = ''CloudFront Distribution URL''\<rparr>]"
proof -
  have flags: "s3_enableWebsiteHosting (cfg_s3 defaultConfig)"
      "truthy_bool_opt (s3_enableCloudFront (cfg_s3 defaultConfig))"
    by (simp_all add: defaultConfig_def truthy_bool_opt_def)
  from site_and_distribution_outputs [of defaultConfig "''k3x9q''"] flags
  show ?thesis by simp
qed

text \<open>
  C5 as stated fails when the distribution is enabled and hosting is not: the default
  configuration with \<open>enableWebsiteHosting: false, enableCloudFront: true\<close> gets the
  distribution output and no site output.
\<close>

theorem distribution_without_hosting_counterexample:
  "\<not> isl (new_ServerlessWebAppStack
            (defaultConfig\<lparr>cfg_s3 := \<lparr>s3_enableWebsiteHosting = False,
                                       s3_enableCloudFront = Some True,
                                       s3_customDomain = None\<rparr>\<rparr>) ''k3x9q'')
   \<and> outputs_with_id ''WebsiteUrl''
        (st_outputs (projr (new_ServerlessWebAppStack
            (defaultConfig\<lparr>cfg_s3 := \<lparr>s3_enableWebsiteHosting = False,
                                       s3_enableCloudFront = Some True,
                                       s3_customDomain = None\<rparr>\<rparr>) ''k3x9q''))) = []
   \<and> outputs_with_id ''CloudFrontUrl''
        (st_outputs (projr (new_ServerlessWebAppStack
            (defaultConfig\<lparr>cfg_s3 := \<lparr>s3_enableWebsiteHosting = False,
                                       s3_enableCloudFront = Some True,
                                       s3_customDomain = None\<rparr>\<rparr>) ''k3x9q''))) =
          [\<lparr>out_id = ''CloudFrontUrl'',
            out_value = [Lit ''https://'', Tok DistributionDomainName],
            out_description = ''CloudFront Distribution URL''\<rparr>]"
proof -
  let ?config = "defaultConfig\<lparr>cfg_s3 := \<lparr>s3_enableWebsiteHosting = False,
                                       s3_enableCloudFront = Some True,
                                       s3_customDomain = None\<rparr>\<rparr>"
  have flags: "\<not> s3_enableWebsiteHosting (cfg_s3 ?config)"
      "truthy_bool_opt (s3_enableCloudFront (cfg_s3 ?config))"
    by (simp_all add: truthy_bool_opt_def)
  from stack_site_outputs [of ?config "''k3x9q''"] flags
  obtain g where "new_ServerlessWebAppStack ?config ''k3x9q'' = Inr g"
    "outputs_with_id ''WebsiteUrl'' (st_outputs g) = []"
    "outputs_with_id ''CloudFrontUrl'' (st_outputs g) =
          [\<lparr>out_id = ''CloudFrontUrl'',
            out_value = [Lit ''https://'', Tok DistributionDomainName],
            out_description = ''CloudFront Distribution URL''\<rparr>]"
    by auto
  then show ?thesis by simp
qed

section \<open>Two runs on one configuration\<close>

text \<open>
  C3, as amended. Composition is a function of the configuration and of the random suffix
  drawn for the bucket name. Two runs on the same configuration return, and agree on the
  database construct, the API construct, the store, the monitoring construct, the
  identifiers of the outputs in order (so also their number), every output but
  \<open>S3BucketName\<close>, and the static-assets construct apart from the bucket name. The bucket
  names end in the two suffixes, so the two object graphs are equal exactly when the
  suffixes are.
\<close>

theorem composition_deterministic_up_to_bucket_suffix:
  "\<exists>g1 g2.
      new_ServerlessWebAppStack config suffix1 = Inr g1
    \<and> new_ServerlessWebAppStack config suffix2 = Inr g2
    \<and> st_database g1 = st_database g2
    \<and> st_api g1 = st_api g2
    \<and> st_store g1 = st_store g2
    \<and> st_monitoring g1 = st_monitoring g2
    \<and> with_bucket_name [] (st_s3 g1) = with_bucket_name [] (st_s3 g2)
    \<and> bk_bucketName (bucket (st_s3 g1)) =
        cfg_projectName config @ ''-'' @ cfg_environment config @ ''-static-assets-'' @ suffix1
    \<and> bk_bucketName (bucket (st_s3 g2)) =
        cfg_projectName config @ ''-'' @ cfg_environment config @ ''-static-assets-'' @ suffix2
    \<and> map out_id (st_outputs g1) = map out_id (st_outputs g2)
    \<and> outputs_without_id ''S3BucketName'' (st_outputs g1) =
        outputs_without_id ''S3BucketName'' (st_outputs g2)
    \<and> ((g1 = g2) = (suffix1 = suffix2))"
proof -
  let ?p = "cfg_projectName config" and ?e = "cfg_environment config"
  obtain db1 a1 h1 s1 mon1 where
      s1: "new_S3Construct (cfg_s3 config) ?p ?e suffix1 = Inr s1"
    and g1: "new_ServerlessWebAppStack config suffix1 =
          Inr \<lparr>st_database = db1, st_api = a1, st_s3 = s1, st_monitoring = mon1,
               st_outputs = stack_outputs config db1 a1 s1, st_store = h1\<rparr>"
    using new_ServerlessWebAppStack_eq by blast
  obtain db2 a2 h2 s2 mon2 where
      s2: "new_S3Construct (cfg_s3 config) ?p ?e suffix2 = Inr s2"
    and g2: "new_ServerlessWebAppStack config suffix2 =
          Inr \<lparr>st_database = db2, st_api = a2, st_s3 = s2, st_monitoring = mon2,
               st_outputs = stack_outputs config db2 a2 s2, st_store = h2\<rparr>"
    using new_ServerlessWebAppStack_eq by blast
  from stack_runs_agree [OF g1 g2]
  have same: "db1 = db2" "a1 = a2" "h1 = h2" "mon1 = mon2"
    by simp_all
  have renamed: "with_bucket_name [] s1 = with_bucket_name [] s2"
    using new_S3Construct_suffix [OF s1 s2] .
  from new_S3Construct_fields [of "cfg_s3 config" ?p ?e suffix1] s1
  have n1: "bk_bucketName (bucket s1) = ?p @ ''-'' @ ?e @ ''-static-assets-'' @ suffix1"
    and w1: "websiteUrl s1 =
          (if truthy_bool_opt (s3_enableCloudFront (cfg_s3 config))
           then Some [Lit ''https://'', Tok DistributionDomainName]
           else if s3_enableWebsiteHosting (cfg_s3 config) then Some [Tok BucketWebsiteUrl] else None)"
    and d1: "distributionDomainName s1 =
          (if truthy_bool_opt (s3_enableCloudFront (cfg_s3 config))
           then Some [Tok DistributionDomainName] else None)"
    by auto
  from new_S3Construct_fields [of "cfg_s3 config" ?p ?e suffix2] s2
  have n2: "bk_bucketName (bucket s2) = ?p @ ''-'' @ ?e @ ''-static-assets-'' @ suffix2"
    and w2: "websiteUrl s2 =
          (if truthy_bool_opt (s3_enableCloudFront (cfg_s3 config))
           then Some [Lit ''https://'', Tok DistributionDomainName]
           else if s3_enableWebsiteHosting (cfg_s3 config) then Some [Tok BucketWebsiteUrl] else None)"
    and d2: "distributionDomainName s2 =
          (if truthy_bool_opt (s3_enableCloudFront (cfg_s3 config))
           then Some [Tok DistributionDomainName] else None)"
    by auto
  have w: "websiteUrl s1 = websiteUrl s2" and d: "distributionDomainName s1 = distributionDomainName s2"
    using w1 w2 d1 d2 by simp_all
  have ids: "map out_id (stack_outputs config db1 a1 s1) = map out_id (stack_outputs config db2 a2 s2)"
    using stack_outputs_suffix(1) [OF w d] same by simp
  have rest: "outputs_without_id ''S3BucketName'' (stack_outputs config db1 a1 s1) =
              outputs_without_id ''S3BucketName'' (stack_outputs config db2 a2 s2)"
    using stack_outputs_suffix(2) [OF w d] same by simp
  let ?g1 = "\<lparr>st_database = db1, st_api = a1, st_s3 = s1, st_monitoring = mon1,
               st_outputs = stack_outputs config db1 a1 s1, st_store = h1\<rparr>"
  let ?g2 = "\<lparr>st_database = db2, st_api = a2, st_s3 = s2, st_monitoring = mon2,
               st_outputs = stack_outputs config db2 a2 s2, st_store = h2\<rparr>"
  have iff: "(?g1 = ?g2) = (suffix1 = suffix2)"
  proof
    assume "?g1 = ?g2"
    then have "s1 = s2" by simp
    with n1 n2 show "suffix1 = suffix2" by simp
  next
    assume "suffix1 = suffix2"
    with g1 g2 show "?g1 = ?g2" by simp
  qed
  have f1: "st_database ?g1 = st_database ?g2" "st_api ?g1 = st_api ?g2"
      "st_store ?g1 = st_store ?g2" "st_monitoring ?g1 = st_monitoring ?g2"
    using same by simp_all
  have f2: "with_bucket_name [] (st_s3 ?g1) = with_bucket_name [] (st_s3 ?g2)"
    using renamed by simp
  have f3: "bk_bucketName (bucket (st_s3 ?g1)) =
              ?p @ ''-'' @ ?e @ ''-static-assets-'' @ suffix1"
      "bk_bucketName (bucket (st_s3 ?g2)) =
              ?p @ ''-'' @ ?e @ ''-static-assets-'' @ suffix2"
    using n1 n2 by simp_all
  have f4: "map out_id (st_outputs ?g1) = map out_id (st_outputs ?g2)"
    using ids by simp
  have f5: "outputs_without_id ''S3BucketName'' (st_outputs ?g1) =
            outputs_without_id ''S3BucketName'' (st_outputs ?g2)"
    using rest by simp
  from g1 g2 f1 f2 f3 f4 f5 iff show ?thesis
    by blast
qed

theorem composition_two_runs_witness:
  "\<exists>g1 g2.
      new_ServerlessWebAppStack defaultConfig ''k3x9q'' = Inr g1
    \<and> new_ServerlessWebAppStack defaultConfig ''p07zt'' = Inr g2
    \<and> st_database g1 = st_database g2
    \<and> st_api g1 = st_api g2
    \<and> st_store g1 = st_store g2
    \<and> st_monitoring g1 = st_monitoring g2
    \<and> with_bucket_name [] (st_s3 g1) = with_bucket_name [] (st_s3 g2)
    \<and> bk_bucketName (bucket (st_s3 g1)) = ''my-serverless-app-dev-static-assets-k3x9q''
    \<and> bk_bucketName (bucket (st_s3 g2)) = ''my-serverless-app-dev-static-assets-p07zt''
    \<and> map out_id (st_outputs g1) = map out_id (st_outputs g2)
    \<and> outputs_without_id ''S3BucketName'' (st_outputs g1) =
        outputs_without_id ''S3BucketName'' (st_outputs g2)
    \<and> g1 \<noteq> g2"
proof -
  have names: "cfg_projectName defaultConfig = ''my-serverless-app''"
      "cfg_environment defaultConfig = ''dev''"
    by (simp_all add: defaultConfig_def)
  from composition_deterministic_up_to_bucket_suffix [of defaultConfig "''k3x9q''" "''p07zt''"]
  show ?thesis
    by (simp add: names)
qed

text \<open>
  C3 as stated fails: two runs on the unchanged default configuration that draw different
  suffixes return different object graphs (the bucket is named differently).
\<close>

theorem composition_not_deterministic_counterexample:
  "new_ServerlessWebAppStack defaultConfig ''k3x9q''
     \<noteq> new_ServerlessWebAppStack defaultConfig ''p07zt''"
proof
  assume eq: "new_ServerlessWebAppStack defaultConfig ''k3x9q''
                = new_ServerlessWebAppStack defaultConfig ''p07zt''"
  let ?p = "cfg_projectName defaultConfig" and ?e = "cfg_environment defaultConfig"
  obtain db1 a1 h1 s1 mon1 where
      s1: "new_S3Construct (cfg_s3 defaultConfig) ?p ?e ''k3x9q'' = Inr s1"
    and g1: "new_ServerlessWebAppStack defaultConfig ''k3x9q'' =
          Inr \<lparr>st_database = db1, st_api = a1, st_s3 = s1, st_monitoring = mon1,
               st_outputs = stack_outputs defaultConfig db1 a1 s1, st_store = h1\<rparr>"
    using new_ServerlessWebAppStack_eq by blast
  obtain db2 a2 h2 s2 mon2 where
      s2: "new_S3Construct (cfg_s3 defaultConfig) ?p ?e ''p07zt'' = Inr s2"
    and g2: "new_ServerlessWebAppStack defaultConfig ''p07zt'' =
          Inr \<lparr>st_database = db2, st_api = a2, st_s3 = s2, st_monitoring = mon2,
               st_outputs = stack_outputs defaultConfig db2 a2 s2, st_store = h2\<rparr>"
    using new_ServerlessWebAppStack_eq by blast
  from eq g1 g2 have "s1 = s2" by simp
  moreover from new_S3Construct_fields [of "cfg_s3 defaultConfig" ?p ?e "''k3x9q''"] s1
  have "bk_bucketName (bucket s1) = ?p @ ''-'' @ ?e @ ''-static-assets-'' @ ''k3x9q''"
    by auto
  moreover from new_S3Construct_fields [of "cfg_s3 defaultConfig" ?p ?e "''p07zt''"] s2
  have "bk_bucketName (bucket s2) = ?p @ ''-'' @ ?e @ ''-static-assets-'' @ ''p07zt''"
    by auto
  ultimately show False by simp
qed

section \<open>The environment tag\<close>




end
